theory Spec2Isabelle
  imports Complex_Main "HOL-Library.Product_Lexorder" "HOL-Library.Sublist"
begin

section \<open>JavaScript values\<close>

text \<open>
  A TypeScript \<^verbatim>\<open>number\<close> is modelled as a \<^typ>\<open>real\<close>: rounding, signed zero and the
  non-finite values are not represented. Where the source divides, the divisor can be
  zero and the JavaScript result is then \<^verbatim>\<open>NaN\<close> or an infinity; the model writes
  that case out (\<open>js_div\<close> returns \<open>None\<close> for a non-finite quotient).
  Strings are \<^typ>\<open>string\<close>; case conversion is the ASCII one. An optional field
  \<^verbatim>\<open>f?: string\<close> is a \<^typ>\<open>string option\<close>, and JavaScript truthiness of such a
  value (neither \<^verbatim>\<open>undefined\<close> nor the empty string) is \<open>truthy\<close>.
\<close>

definition upper_char :: "char \<Rightarrow> char" where
  "upper_char c =
     (let n = (of_char c :: nat) in if 97 \<le> n \<and> n \<le> 122 then char_of (n - 32) else c)"

definition lower_char :: "char \<Rightarrow> char" where
  "lower_char c =
     (let n = (of_char c :: nat) in if 65 \<le> n \<and> n \<le> 90 then char_of (n + 32) else c)"

definition toUpperCase :: "string \<Rightarrow> string" where
  "toUpperCase s = map upper_char s"

definition toLowerCase :: "string \<Rightarrow> string" where
  "toLowerCase s = map lower_char s"

definition truthy :: "string option \<Rightarrow> bool" where
  "truthy x = (case x of None \<Rightarrow> False | Some s \<Rightarrow> s \<noteq> [])"

text \<open>\<^verbatim>\<open>x || d\<close> for an optional string \<open>x\<close>.\<close>

definition or_else :: "string option \<Rightarrow> string \<Rightarrow> string" where
  "or_else x d = (case x of None \<Rightarrow> d | Some s \<Rightarrow> if s = [] then d else s)"

text \<open>\<^verbatim>\<open>x || undefined\<close> for an optional string \<open>x\<close>.\<close>

definition or_undefined :: "string option \<Rightarrow> string option" where
  "or_undefined x = (if truthy x then x else None)"

text \<open>\<^verbatim>\<open>a / b\<close>; \<open>None\<close> stands for the non-finite result of a division by zero.\<close>

definition js_div :: "real \<Rightarrow> real \<Rightarrow> real option" where
  "js_div a b = (if b = 0 then None else Some (a / b))"

text \<open>\<^verbatim>\<open>s.includes(t)\<close>.\<close>

definition str_includes :: "string \<Rightarrow> string \<Rightarrow> bool" where
  "str_includes s t = sublist t s"


subsection \<open>Strings and numerals\<close>

text \<open>\<^verbatim>\<open>s.trim()\<close>, on the ASCII white space (tab, line feed, vertical tab, form feed,
  carriage return, space).\<close>

definition is_space :: "char \<Rightarrow> bool" where
  "is_space c = (let n = (of_char c :: nat) in (9 \<le> n \<and> n \<le> 13) \<or> n = 32)"

definition trim :: "string \<Rightarrow> string" where
  "trim s = rev (dropWhile is_space (rev (dropWhile is_space s)))"

definition is_digit :: "char \<Rightarrow> bool" where
  "is_digit c = (let n = (of_char c :: nat) in 48 \<le> n \<and> n \<le> 57)"

definition is_upper :: "char \<Rightarrow> bool" where
  "is_upper c = (let n = (of_char c :: nat) in 65 \<le> n \<and> n \<le> 90)"

text \<open>The value of a string of decimal digits.\<close>

definition digit_value :: "char \<Rightarrow> int" where
  "digit_value c = of_char c - 48"

definition digits_value :: "string \<Rightarrow> int" where
  "digits_value ds = foldl (\<lambda>n c. 10 * n + digit_value c) 0 ds"

text \<open>\<^verbatim>\<open>s.split(sep)\<close> for a separator that is one character of a class.\<close>

fun split_where :: "(char \<Rightarrow> bool) \<Rightarrow> string \<Rightarrow> string list" where
  "split_where sep [] = [[]]"
| "split_where sep (c # cs) =
     (if sep c then [] # split_where sep cs
      else (case split_where sep cs of
              [] \<Rightarrow> [[c]]
            | w # ws \<Rightarrow> (c # w) # ws))"

text \<open>\<^verbatim>\<open>s.startsWith(p)\<close> is \<^const>\<open>prefix\<close>, \<^verbatim>\<open>s.endsWith(p)\<close> is \<^const>\<open>suffix\<close>.\<close>

text \<open>
  The result of \<^verbatim>\<open>parseFloat\<close>: a finite number (as a real: the decimal numeral read
  exactly, without rounding to a double), an infinity or \<^verbatim>\<open>NaN\<close>.
\<close>

datatype js_float = Finite real | PosInfinity | NegInfinity | NaN

text \<open>
  \<^verbatim>\<open>parseFloat(s)\<close>: leading white space is skipped, then the longest prefix that is a
  decimal literal is read (an optional sign, then \<^verbatim>\<open>Infinity\<close>, or digits with an
  optional fraction and an optional exponent); anything after it is ignored, and
  \<^verbatim>\<open>NaN\<close> results when there is no such prefix.
\<close>

definition read_exponent :: "string \<Rightarrow> int" where
  "read_exponent s =
     (case s of
        [] \<Rightarrow> 0
      | c # cs \<Rightarrow>
         if c = CHR ''e'' \<or> c = CHR ''E''
         then (case cs of
                 [] \<Rightarrow> 0
               | d # ds \<Rightarrow>
                  if d = CHR ''-''
                  then (if takeWhile is_digit ds = [] then 0
                        else - digits_value (takeWhile is_digit ds))
                  else if d = CHR ''+''
                  then (if takeWhile is_digit ds = [] then 0
                        else digits_value (takeWhile is_digit ds))
                  else digits_value (takeWhile is_digit cs))
         else 0)"

definition scale10 :: "real \<Rightarrow> int \<Rightarrow> real" where
  "scale10 x e =
     (if e \<ge> 0 then x * real_of_int (10 ^ nat e) else x / real_of_int (10 ^ nat (- e)))"

definition read_unsigned :: "string \<Rightarrow> real option" where
  "read_unsigned s =
     (let ip = takeWhile is_digit s;
          r1 = dropWhile is_digit s
      in (case r1 of
            c # cs \<Rightarrow>
              if c = CHR ''.''
              then (let fp = takeWhile is_digit cs; r2 = dropWhile is_digit cs
                    in if ip = [] \<and> fp = [] then None
                       else Some (scale10
                              (real_of_int (digits_value (ip @ fp)) /
                               real_of_int (10 ^ length fp))
                              (read_exponent r2)))
              else if ip = [] then None
              else Some (scale10 (real_of_int (digits_value ip)) (read_exponent r1))
          | [] \<Rightarrow> if ip = [] then None else Some (real_of_int (digits_value ip))))"

definition parseFloat :: "string \<Rightarrow> js_float" where
  "parseFloat s =
     (let t = dropWhile is_space s in
      case t of
        [] \<Rightarrow> NaN
      | c # cs \<Rightarrow>
         if c = CHR ''-''
         then (if prefix ''Infinity'' cs then NegInfinity
               else (case read_unsigned cs of None \<Rightarrow> NaN | Some x \<Rightarrow> Finite (- x)))
         else if c = CHR ''+''
         then (if prefix ''Infinity'' cs then PosInfinity
               else (case read_unsigned cs of None \<Rightarrow> NaN | Some x \<Rightarrow> Finite x))
         else (if prefix ''Infinity'' t then PosInfinity
               else (case read_unsigned t of None \<Rightarrow> NaN | Some x \<Rightarrow> Finite x)))"

text \<open>\<^verbatim>\<open>String(n)\<close> for a natural number, and \<^verbatim>\<open>x.toFixed(2)\<close> (below 1e21).\<close>

fun show_nat :: "nat \<Rightarrow> string" where
  "show_nat n =
     (if n < 10 then [char_of (48 + n)]
      else show_nat (n div 10) @ [char_of (48 + n mod 10)])"

definition toFixed2 :: "real \<Rightarrow> string" where
  "toFixed2 x =
     (let n = \<lfloor>\<bar>x\<bar> * 100 + 1 / 2\<rfloor>;
          body = show_nat (nat (n div 100)) @ ''.'' @ [char_of (48 + (n mod 100) div 10)]
                   @ [char_of (48 + n mod 10)]
      in if x < 0 \<and> n \<noteq> 0 then ''-'' @ body else body)"

text \<open>\<^verbatim>\<open>xs.join(sep)\<close>.\<close>

fun join :: "string \<Rightarrow> string list \<Rightarrow> string" where
  "join sep [] = []"
| "join sep [x] = x"
| "join sep (x # y # ys) = x @ sep @ join sep (y # ys)"

text \<open>\<^verbatim>\<open>xs.findIndex(p)\<close>, \<open>None\<close> for \<^verbatim>\<open>-1\<close>; and \<^verbatim>\<open>xs[i]\<close>, \<open>None\<close> for
  \<^verbatim>\<open>undefined\<close>.\<close>

fun find_index :: "('a \<Rightarrow> bool) \<Rightarrow> 'a list \<Rightarrow> nat option" where
  "find_index p [] = None"
| "find_index p (x # xs) = (if p x then Some 0 else map_option Suc (find_index p xs))"

definition at_index :: "'a list \<Rightarrow> nat \<Rightarrow> 'a option" where
  "at_index xs i = (if i < length xs then Some (xs ! i) else None)"

section \<open>Statement parser: the Open Positions section (parsers/ibStatementParser.ts)\<close>

text \<open>
  The numbers of a parsed holding come from \<^verbatim>\<open>parseFloat\<close> and can be infinite; the
  operations the parser applies to them are written out on \<^typ>\<open>js_float\<close>.
\<close>

record ParsedHolding =
  symbol :: string
  quantity :: js_float
  price :: js_float
  "value" :: js_float
  currency :: "string option"
  assetType :: "string option"

text \<open>\<^verbatim>\<open>x || y\<close> for numbers (0 and \<^verbatim>\<open>NaN\<close> are falsy), \<^verbatim>\<open>x * y\<close> and \<^verbatim>\<open>x <= 0\<close>.\<close>

definition js_or :: "js_float \<Rightarrow> js_float \<Rightarrow> js_float" where
  "js_or x y = (if x = Finite 0 \<or> x = NaN then y else x)"

definition js_sign :: "js_float \<Rightarrow> int option" where
  "js_sign x =
     (case x of Finite r \<Rightarrow> Some (if r > 0 then 1 else if r < 0 then - 1 else 0)
              | PosInfinity \<Rightarrow> Some 1 | NegInfinity \<Rightarrow> Some (- 1) | NaN \<Rightarrow> None)"

definition js_times :: "js_float \<Rightarrow> js_float \<Rightarrow> js_float" where
  "js_times x y =
     (case (x, y) of
        (Finite a, Finite b) \<Rightarrow> Finite (a * b)
      | _ \<Rightarrow> (case (js_sign x, js_sign y) of
                (Some s, Some t) \<Rightarrow>
                  if s * t > 0 then PosInfinity else if s * t < 0 then NegInfinity else NaN
              | _ \<Rightarrow> NaN))"

definition js_le_zero :: "js_float \<Rightarrow> bool" where
  "js_le_zero x = (case x of Finite r \<Rightarrow> r \<le> 0 | NegInfinity \<Rightarrow> True | _ \<Rightarrow> False)"

subsection \<open>The regular expressions of the parser\<close>

definition is_word_char :: "char \<Rightarrow> bool" where
  "is_word_char c =
     (let n = (of_char c :: nat)
      in (48 \<le> n \<and> n \<le> 57) \<or> (65 \<le> n \<and> n \<le> 90) \<or> (97 \<le> n \<and> n \<le> 122) \<or> n = 95)"

definition is_upper_alnum :: "char \<Rightarrow> bool" where
  "is_upper_alnum c = (is_upper c \<or> is_digit c)"

definition is_number_char :: "char \<Rightarrow> bool" where
  "is_number_char c = (is_digit c \<or> c = CHR ''.'' \<or> c = CHR '','')"

text \<open>\<^verbatim>\<open>/^(w1|...|wn)$/i\<close>: the whole string is one of the words, whatever the case.\<close>

definition is_word_of :: "string list \<Rightarrow> string \<Rightarrow> bool" where
  "is_word_of ws s = (toLowerCase s \<in> set (map toLowerCase ws))"

text \<open>\<^verbatim>\<open>/^Total\s+/i\<close> and \<^verbatim>\<open>/^Total\s+(in|Stocks)/i\<close>.\<close>

definition total_then_space :: "string \<Rightarrow> bool" where
  "total_then_space s =
     (toLowerCase (take 5 s) = ''total'' \<and> takeWhile is_space (drop 5 s) \<noteq> [])"

definition total_in_or_stocks :: "string \<Rightarrow> bool" where
  "total_in_or_stocks s =
     (total_then_space s \<and>
      (let r = toLowerCase (dropWhile is_space (drop 5 s))
       in prefix ''in'' r \<or> prefix ''stocks'' r))"

text \<open>\<^verbatim>\<open>/[A-Z]{2,6}$/\<close>: the string ends with two upper-case letters.\<close>

definition ends_with_ticker :: "string \<Rightarrow> bool" where
  "ends_with_ticker s = (length s \<ge> 2 \<and> list_all is_upper (drop (length s - 2) s))"

text \<open>\<^verbatim>\<open>/^[A-Z0-9]{1,6}$/\<close> and \<^verbatim>\<open>/^[A-Z]{2,6}$/\<close>.\<close>

definition short_upper_alnum :: "string \<Rightarrow> bool" where
  "short_upper_alnum s = (1 \<le> length s \<and> length s \<le> 6 \<and> list_all is_upper_alnum s)"

definition short_upper_word :: "string \<Rightarrow> bool" where
  "short_upper_word s = (2 \<le> length s \<and> length s \<le> 6 \<and> list_all is_upper s)"

text \<open>\<^verbatim>\<open>/^[\d,]+\.?\d*$/\<close>\<close>

definition pure_number :: "string \<Rightarrow> bool" where
  "pure_number s =
     (let a = takeWhile (\<lambda>c. is_digit c \<or> c = CHR '','') s;
          r = dropWhile (\<lambda>c. is_digit c \<or> c = CHR '','') s
      in a \<noteq> [] \<and> list_all is_digit (if prefix ''.'' r then tl r else r))"

text \<open>
  \<^verbatim>\<open>/^\s*\w+\s+[\d.,]+\s+[\d.,]+\s+[\d.,]+/\<close>: a word and three numbers, separated by
  white space, at the start of the line. White space is disjoint from the other two
  classes, so the greedy reading is the only one.
\<close>

definition after_class :: "(char \<Rightarrow> bool) \<Rightarrow> string option \<Rightarrow> string option" where
  "after_class p s =
     (case s of None \<Rightarrow> None
      | Some t \<Rightarrow> if takeWhile p t = [] then None else Some (dropWhile p t))"

definition horizontal_row_shape :: "string \<Rightarrow> bool" where
  "horizontal_row_shape s =
     (after_class is_number_char (after_class is_space
        (after_class is_number_char (after_class is_space
          (after_class is_number_char (after_class is_space
            (after_class is_word_char (Some (dropWhile is_space s)))))))) \<noteq> None)"

subsection \<open>The section, its header and its layout\<close>

text \<open>\<^verbatim>\<open>text.indexOf(pattern, from)\<close>, \<open>None\<close> for \<^verbatim>\<open>-1\<close>.\<close>

fun index_from :: "string \<Rightarrow> string \<Rightarrow> nat \<Rightarrow> nat option" where
  "index_from pat [] k = (if pat = [] then Some k else None)"
| "index_from pat (c # cs) k =
     (if prefix pat (c # cs) then Some k else index_from pat cs (k + 1))"

definition indexOf :: "string \<Rightarrow> string \<Rightarrow> nat \<Rightarrow> nat option" where
  "indexOf s pat from = index_from pat (drop from s) (min from (length s))"

definition open_positions_section :: "string \<Rightarrow> string list option" where
  "open_positions_section text' =
     (case indexOf text' ''Open Positions'' 0 of
        None \<Rightarrow> None
      | Some firstOpenPos \<Rightarrow>
         (let forexIndex = indexOf text' ''Forex'' firstOpenPos;
              notesIndex = indexOf text' ''Notes'' firstOpenPos;
              stop = (\<lambda>idx. case idx of Some k \<Rightarrow> if k > 0 then k else length text'
                                          | None \<Rightarrow> length text');
              endIndex = min (stop forexIndex) (stop notesIndex)
          in Some (split_where (\<lambda>c. c = CHR 0x0A)
                     (take (endIndex - firstOpenPos) (drop firstOpenPos text')))))"

fun find_header_line :: "string list \<Rightarrow> nat \<Rightarrow> nat option" where
  "find_header_line [] i = None"
| "find_header_line (l # rest) i =
     (if i < 15
      then (let line = toLowerCase l in
            if str_includes line ''symbol'' \<and>
               (str_includes line ''quantity'' \<or> str_includes line ''qty'' \<or>
                (case rest of [] \<Rightarrow> False
                            | next' # _ \<Rightarrow> str_includes (toLowerCase next') ''quantity''))
            then Some i
            else find_header_line rest (i + 1))
      else None)"

definition headerKeywords :: "string list" where
  "headerKeywords =
     [''symbol'', ''quantity'', ''mult'', ''cost price'', ''cost basis'', ''close price'',
      ''value'', ''unrealized'', ''code'']"

fun skip_header :: "string list \<Rightarrow> nat \<Rightarrow> nat \<Rightarrow> nat" where
  "skip_header [] dataStartIndex headerLines = dataStartIndex"
| "skip_header (l # rest) dataStartIndex headerLines =
     (if headerLines < length headerKeywords \<and>
         list_ex (\<lambda>keyword. str_includes (toLowerCase l) keyword) headerKeywords
      then skip_header rest (dataStartIndex + 1) (headerLines + 1)
      else dataStartIndex)"

definition isVerticalFormat :: "string list \<Rightarrow> nat \<Rightarrow> bool" where
  "isVerticalFormat lines headerIndex =
     (case at_index lines (headerIndex + 1) of
        None \<Rightarrow> False
      | Some l \<Rightarrow> l \<noteq> [] \<and> \<not> str_includes l '','' \<and> \<not> horizontal_row_shape l)"

subsection \<open>The vertical layout: one field per line\<close>

text \<open>
  The condition of the inner loop that skips blank lines, totals and section names, and
  the inner loop itself.
\<close>

definition filler_line :: "string list \<Rightarrow> nat \<Rightarrow> bool" where
  "filler_line lines i =
     (trim (lines ! i) = [] \<or>
      (is_word_of [''Total'', ''Stocks'', ''USD'', ''EUR'', ''GBP'', ''JPY''] (lines ! i) \<and>
       \<not> list_ex (\<lambda>c. is_digit c \<or> c = CHR '','') (lines ! i)) \<or>
      total_in_or_stocks (lines ! i) \<or>
      (is_word_of [''Total''] (lines ! i) \<and> i + 1 < length lines \<and> trim (lines ! (i + 1)) = []))"

function skip_fillers :: "string list \<Rightarrow> nat \<Rightarrow> nat" where
  "skip_fillers lines i =
     (if i < length lines \<and> filler_line lines i then skip_fillers lines (i + 1) else i)"
  by pat_completeness auto
termination
  by (relation "measure (\<lambda>(lines, i). length lines - i)") auto

definition sectionPrefixes :: "(string \<times> string option) list" where
  "sectionPrefixes =
     [(''StocksEUR'', Some ''EUR''), (''Stocks'', None), (''USD'', Some ''USD''),
      (''EUR'', Some ''EUR''), (''GBP'', Some ''GBP''), (''JPY'', Some ''JPY'')]"

text \<open>The first known prefix the line starts with is cut off; it may name a currency.\<close>

fun strip_prefix :: "(string \<times> string option) list \<Rightarrow> string \<Rightarrow> string \<times> string option" where
  "strip_prefix [] line = (line, None)"
| "strip_prefix ((pre, cur) # rest) line =
     (if prefix pre line then (drop (length pre) line, cur) else strip_prefix rest line)"

text \<open>
  \<^verbatim>\<open>([A-Z0-9]{len})$\<close> for \<open>len\<close> from 5 down to 1, accepted when the match has a
  letter; then the whole line, when it is short and upper-case alphanumeric.
\<close>

fun symbol_suffix :: "nat list \<Rightarrow> string \<Rightarrow> string option" where
  "symbol_suffix [] line = None"
| "symbol_suffix (len # rest) line =
     (let m = drop (length line - len) line
      in if len \<le> length line \<and> list_all is_upper_alnum m \<and> list_ex is_upper m
         then Some m else symbol_suffix rest line)"

definition extract_symbol :: "string \<Rightarrow> string option" where
  "extract_symbol cleanedLine =
     (case symbol_suffix [5, 4, 3, 2, 1] cleanedLine of
        Some s \<Rightarrow> Some s
      | None \<Rightarrow> if short_upper_alnum cleanedLine then Some cleanedLine else None)"

text \<open>The numbers of the data lines of a row, up to a line that looks like a symbol.\<close>

fun row_values :: "string list \<Rightarrow> js_float list" where
  "row_values [] = []"
| "row_values (line # rest) =
     (if short_upper_word line \<and> \<not> list_ex is_digit line then []
      else
        let cleaned = filter (\<lambda>c. c \<noteq> CHR '','') line;
            cleaned' = (if prefix ''('' cleaned \<and> suffix '')'' cleaned
                        then ''-'' @ butlast (tl cleaned) else cleaned);
            num = parseFloat cleaned'
        in if num \<noteq> NaN then num # row_values rest else row_values rest)"

text \<open>
  One iteration of the outer \<^verbatim>\<open>while (i < lines.length)\<close> loop, from the cursor \<open>i\<close> and
  the holdings pushed so far: \<open>Inr\<close> when the loop ends (its condition fails or
  \<^verbatim>\<open>break\<close>), \<open>Inl\<close> with the cursor and the holdings of the next iteration otherwise
  (\<^verbatim>\<open>continue\<close>, or the end of the body).
\<close>

definition numDataFields :: nat where
  "numDataFields = 8"

definition rowSize :: nat where
  "rowSize = numDataFields + 1"

text \<open>The two tests that skip a line which cannot start a row.\<close>

definition not_a_symbol_line :: "string \<Rightarrow> bool" where
  "not_a_symbol_line symbolLine =
     (prefix ''-'' symbolLine \<or> list_ex is_digit (take 1 symbolLine) \<or>
      (str_includes symbolLine ''.'' \<and> \<not> ends_with_ticker symbolLine) \<or>
      (str_includes symbolLine '','' \<and> \<not> ends_with_ticker symbolLine) \<or>
      length symbolLine > 20)"

definition section_name_line :: "string \<Rightarrow> bool" where
  "section_name_line symbolLine =
     (is_word_of [''Stocks'', ''Total'', ''USD'', ''EUR'', ''GBP'', ''JPY'', ''Code''] symbolLine \<or>
      total_then_space symbolLine \<or> symbolLine = ''SY'')"

text \<open>
  Where the data lines of the row at \<open>i\<close> end: before the Code position when the line
  there looks like the next symbol, after it otherwise.
\<close>

definition data_end_index :: "string list \<Rightarrow> nat \<Rightarrow> nat" where
  "data_end_index lines i =
     (let codeIndex = i + 1 + numDataFields - 1;
          potentialCode = trim (lines ! codeIndex)
      in if codeIndex < length lines \<and> potentialCode \<noteq> [] \<and>
            short_upper_alnum potentialCode \<and> potentialCode \<noteq> ''SY'' \<and>
            potentialCode \<noteq> ''Code'' \<and> \<not> pure_number potentialCode
         then codeIndex else i + 1 + numDataFields)"

text \<open>The rest of the body, once the symbol of the row at \<open>i\<close> is known.\<close>

definition vertical_row :: "string list \<Rightarrow> nat \<Rightarrow> ParsedHolding list \<Rightarrow> string \<Rightarrow> string option \<Rightarrow>
    (nat \<times> ParsedHolding list) + ParsedHolding list" where
  "vertical_row lines i holdings symbol' extractedCurrency =
     (let dataEndIndex = data_end_index lines i;
          rowLines = take (dataEndIndex - (i + 1)) (drop (i + 1) lines);
          values = row_values rowLines;
          codeWasMissing = (dataEndIndex < i + 1 + numDataFields);
          actualRowSize = (if codeWasMissing then rowSize - 1 else rowSize)
      in if length values < 6 then Inl (i + actualRowSize, holdings)
         else
           let quantity' = js_or (values ! 0) (Finite 0);
               price' = js_or (values ! 4) (Finite 0);
               value' = js_or (values ! 5) (js_times quantity' price')
           in if js_le_zero quantity' \<or> js_le_zero price'
              then Inl (i, holdings)
              else Inl (i + actualRowSize,
                        holdings @
                        [\<lparr>ParsedHolding.symbol = symbol', quantity = quantity',
                          price = price',
                          value = js_or value' (js_times quantity' price'),
                          currency = extractedCurrency,
                          assetType = None\<rparr>]))"

definition vertical_step :: "string list \<Rightarrow> nat \<times> ParsedHolding list \<Rightarrow>
    (nat \<times> ParsedHolding list) + ParsedHolding list" where
  "vertical_step lines st =
     (let i = skip_fillers lines (fst st); holdings = snd st in
      if i \<ge> length lines then Inr holdings
      else
        let symbolLine = trim (lines ! i) in
        if not_a_symbol_line symbolLine then Inl (i + 1, holdings)
        else if section_name_line symbolLine then Inl (i + 1, holdings)
        else if i + rowSize > length lines then Inr holdings
        else
          let cleanedLine = fst (strip_prefix sectionPrefixes symbolLine);
              extractedCurrency = snd (strip_prefix sectionPrefixes symbolLine)
          in case extract_symbol cleanedLine of
               None \<Rightarrow> Inl (i + 1, holdings)
             | Some symbol' \<Rightarrow> vertical_row lines i holdings symbol' extractedCurrency)"

text \<open>
  The loop itself. It is a partial function: \<open>None\<close> is the run that never leaves the
  loop.
\<close>

partial_function (option) vertical_loop :: "string list \<Rightarrow> nat \<times> ParsedHolding list \<Rightarrow>
    ParsedHolding list option" where
  "vertical_loop lines st =
     (case vertical_step lines st of
        Inr holdings \<Rightarrow> Some holdings
      | Inl st' \<Rightarrow> vertical_loop lines st')"

declare vertical_loop.simps [code]

subsection \<open>The horizontal layout: one row per line\<close>

text \<open>\<^verbatim>\<open>s.replace(/--/g, '0')\<close> and \<^verbatim>\<open>s.split(/\s+/).filter(p => p && p.trim() !== '')\<close>.\<close>

fun replace_dashes :: "string \<Rightarrow> string" where
  "replace_dashes (a # b # rest) =
     (if a = CHR ''-'' \<and> b = CHR ''-'' then CHR ''0'' # replace_dashes rest
      else a # replace_dashes (b # rest))"
| "replace_dashes s = s"

definition tokens :: "string \<Rightarrow> string list" where
  "tokens s = filter (\<lambda>p. p \<noteq> [] \<and> trim p \<noteq> []) (split_where is_space s)"

definition horizontal_numbers :: "string list \<Rightarrow> js_float list" where
  "horizontal_numbers parts =
     filter (\<lambda>num. num \<noteq> NaN)
       (map (\<lambda>p. parseFloat (replace_dashes (filter (\<lambda>c. c \<noteq> CHR '','') p))) parts)"

definition horizontal_row :: "string \<Rightarrow> ParsedHolding option" where
  "horizontal_row l =
     (let line = trim l in
      if line = [] \<or> str_includes (toLowerCase line) ''total'' \<or> str_includes line ''---'' \<or>
         length line < 5
      then None
      else
        let parts = tokens line in
        if length parts < 6 then None
        else
          let stripped = strip_prefix
                 [(''StocksEUR'', Some ''EUR''), (''Stocks'', None), (''USD'', Some ''USD''),
                  (''EUR'', Some ''EUR'')] (hd parts);
              numbers = horizontal_numbers (tl parts)
          in if length numbers < 5 then None
             else
               let quantity' = js_or (numbers ! 0) (Finite 0);
                   price' = js_or (numbers ! 4) (Finite 0);
                   value' = js_or (case at_index numbers 5 of Some v \<Rightarrow> v | None \<Rightarrow> NaN)
                              (js_times quantity' price')
               in if js_le_zero quantity' \<or> js_le_zero price' then None
                  else Some \<lparr>ParsedHolding.symbol = fst stripped, quantity = quantity',
                         price = price', value = value', currency = snd stripped,
                         assetType = None\<rparr>)"

subsection \<open>parseOpenPositions\<close>

definition parseOpenPositions :: "string \<Rightarrow> ParsedHolding list option" where
  "parseOpenPositions text' =
     (case open_positions_section text' of
        None \<Rightarrow> Some []
      | Some lines \<Rightarrow>
         (case find_header_line lines 0 of
            None \<Rightarrow> Some []
          | Some headerIndex \<Rightarrow>
             (let dataStartIndex = skip_header (drop headerIndex lines) headerIndex 0 in
              if isVerticalFormat lines headerIndex
              then vertical_loop lines (dataStartIndex, [])
              else Some (List.map_filter horizontal_row (drop (headerIndex + 1) lines)))))"

section \<open>Schema records (db/schema.ts)\<close>

record Holding =
  id' :: nat
  account_id :: nat
  symbol :: string
  isin :: "string option"
  instrument_name :: "string option"
  asset_type :: string
  asset_category :: "string option"
  quantity :: real
  price :: real
  currency :: string
  value_usd :: real
  value_base :: real
  statement_date :: string

text \<open>
  \<^verbatim>\<open>alternative_tickers\<close> is the decoded list of tickers (the JSON text column of the
  database row after \<^verbatim>\<open>JSON.parse\<close>); an absent field is the empty list.
\<close>

record TargetAllocation =
  id' :: nat
  asset_type :: string
  asset_category :: "string option"
  symbol :: "string option"
  alternative_tickers :: "string list"
  isin :: "string option"
  target_percentage :: real
  bucket :: "string option"

text \<open>The key of a category-level target, \<^verbatim>\<open>asset_type|asset_category\<close>.\<close>

definition category_key :: "string \<Rightarrow> string option \<Rightarrow> string" where
  "category_key ty cat = ty @ ''|'' @ or_else cat ''''"


section \<open>Holding matcher (services/holdingMatcher.ts)\<close>

datatype MatchType = exact_symbol | exact_isin | category | none

record MatchedHolding = Holding +
  matchedTargetId :: "nat option"
  matchType :: "MatchType option"
  suggestedAssetType :: "string option"

record SuggestedMatch =
  target :: TargetAllocation
  matchScore :: int
  matchReason :: string

record UnmatchedHolding =
  holding :: Holding
  suggestedMatches :: "SuggestedMatch list"
  suggestedAssetType :: "string option"

subsection \<open>Lookup maps of the targets\<close>

record TargetIndex =
  targetsBySymbol :: "string \<rightharpoonup> TargetAllocation"
  targetsByIsin :: "string \<rightharpoonup> TargetAllocation"
  targetsByCategory :: "string \<rightharpoonup> TargetAllocation list"

fun map_alt_tickers :: "string list \<Rightarrow> TargetAllocation \<Rightarrow> (string \<rightharpoonup> TargetAllocation) \<Rightarrow>
    (string \<rightharpoonup> TargetAllocation)" where
  "map_alt_tickers [] t m = m"
| "map_alt_tickers (a # as) t m =
     map_alt_tickers as t (if a \<noteq> [] then m(toUpperCase a \<mapsto> t) else m)"

definition index_target :: "TargetAllocation \<Rightarrow> TargetIndex \<Rightarrow> TargetIndex" where
  "index_target t idx =
     (let alternativeTickers = alternative_tickers t;
          bySymbol1 = (if truthy (TargetAllocation.symbol t)
                       then (targetsBySymbol idx)(toUpperCase (the (TargetAllocation.symbol t)) \<mapsto> t)
                       else targetsBySymbol idx);
          bySymbol2 = map_alt_tickers alternativeTickers t bySymbol1;
          byIsin = (if truthy (TargetAllocation.isin t)
                    then (targetsByIsin idx)(toUpperCase (the (TargetAllocation.isin t)) \<mapsto> t)
                    else targetsByIsin idx);
          key = category_key (TargetAllocation.asset_type t) (TargetAllocation.asset_category t);
          byCategory = (if \<not> truthy (TargetAllocation.symbol t) \<and> alternativeTickers = []
                        then (targetsByCategory idx)
                               (key \<mapsto> (case targetsByCategory idx key of None \<Rightarrow> [] | Some l \<Rightarrow> l) @ [t])
                        else targetsByCategory idx)
      in \<lparr>targetsBySymbol = bySymbol2, targetsByIsin = byIsin, targetsByCategory = byCategory\<rparr>)"

definition target_index :: "TargetAllocation list \<Rightarrow> TargetIndex" where
  "target_index targets =
     fold index_target targets
       \<lparr>targetsBySymbol = Map.empty, targetsByIsin = Map.empty, targetsByCategory = Map.empty\<rparr>"

subsection \<open>Matching one holding\<close>

text \<open>
  The three attempts of the loop body, in the source's order: each later attempt runs
  only while \<^verbatim>\<open>matchedTarget\<close> is still undefined.
\<close>

definition find_match :: "TargetIndex \<Rightarrow> Holding \<Rightarrow> (TargetAllocation \<times> MatchType) option" where
  "find_match idx h =
     (let m1 = (if Holding.symbol h \<noteq> []
                then (case targetsBySymbol idx (toUpperCase (Holding.symbol h)) of
                        Some t \<Rightarrow> Some (t, exact_symbol)
                      | None \<Rightarrow> None)
                else None);
          m2 = (if m1 = None \<and> truthy (Holding.isin h)
                then (case targetsByIsin idx (toUpperCase (the (Holding.isin h))) of
                        Some t \<Rightarrow> Some (t, exact_isin)
                      | None \<Rightarrow> m1)
                else m1);
          m3 = (if m2 = None
                then (case targetsByCategory idx
                             (category_key (Holding.asset_type h) (Holding.asset_category h)) of
                        Some (t # rest) \<Rightarrow> Some (t, category)
                      | _ \<Rightarrow> m2)
                else m2)
      in m3)"

definition matched_holding :: "Holding \<Rightarrow> TargetAllocation \<Rightarrow> MatchType \<Rightarrow> MatchedHolding" where
  "matched_holding h t mt =
     Holding.extend
       (h\<lparr>Holding.asset_type := TargetAllocation.asset_type t,
          Holding.asset_category :=
            (if truthy (TargetAllocation.asset_category t) then TargetAllocation.asset_category t
             else Holding.asset_category h)\<rparr>)
       (MatchedHolding.fields (Some (TargetAllocation.id' t)) (Some mt) None)"

subsection \<open>Suggestions for an unmatched holding\<close>

definition suggestion_for :: "Holding \<Rightarrow> TargetAllocation \<Rightarrow> SuggestedMatch option" where
  "suggestion_for h t =
     (let s1 = (if Holding.symbol h \<noteq> [] \<and> truthy (TargetAllocation.symbol t)
                then (let holdingSym = toUpperCase (Holding.symbol h);
                          targetSym = toUpperCase (the (TargetAllocation.symbol t))
                      in if holdingSym = targetSym then (100, ''Exact symbol match'')
                         else if str_includes holdingSym targetSym \<or> str_includes targetSym holdingSym
                         then (50, ''Partial symbol match'')
                         else (0, ''''))
                else (0 :: int, ''''));
          s2 = (if truthy (Holding.isin h) \<and> truthy (TargetAllocation.isin t) \<and>
                   toUpperCase (the (Holding.isin h)) = toUpperCase (the (TargetAllocation.isin t))
                then (fst s1 + 100, ''Exact ISIN match'')
                else s1);
          s3 = (if truthy (Holding.asset_category h) \<and> truthy (TargetAllocation.asset_category t) \<and>
                   toLowerCase (the (Holding.asset_category h)) =
                     toLowerCase (the (TargetAllocation.asset_category t))
                then (fst s2 + 30,
                      if snd s2 \<noteq> [] then snd s2 @ '', category match'' else ''Category match'')
                else s2)
      in if fst s3 > 0
         then Some \<lparr>target = t, matchScore = fst s3, matchReason = snd s3\<rparr>
         else None)"

definition findSuggestedMatches :: "Holding \<Rightarrow> TargetAllocation list \<Rightarrow> SuggestedMatch list" where
  "findSuggestedMatches h targets =
     take 5 (sort_key (\<lambda>s. - matchScore s) (List.map_filter (suggestion_for h) targets))"

definition inferAssetType :: "Holding \<Rightarrow> string" where
  "inferAssetType h =
     (let sym = toUpperCase (Holding.symbol h);
          cat = toLowerCase (or_else (Holding.asset_category h) '''')
      in if str_includes sym ''BTC'' \<or> str_includes sym ''ETH'' \<or> sym = ''COIN'' \<or> sym = ''GBTC''
         then ''Crypto''
         else if str_includes sym ''BND'' \<or> str_includes sym ''TIP'' \<or> str_includes sym ''AGG'' \<or>
                 str_includes cat ''bond''
         then ''Bond''
         else if str_includes sym ''REIT'' \<or> str_includes sym ''VNQ'' \<or> str_includes sym ''REET'' \<or>
                 str_includes cat ''reit'' \<or> str_includes cat ''real estate''
         then ''REIT''
         else if str_includes sym ''GLD'' \<or> str_includes sym ''SLV'' \<or> str_includes sym ''USAG'' \<or>
                 str_includes cat ''commodity'' \<or> str_includes cat ''gold'' \<or>
                 str_includes cat ''silver''
         then ''Commodity''
         else if str_includes cat ''cash'' \<or> str_includes cat ''money market'' \<or>
                 str_includes sym ''SGOV'' \<or> str_includes sym ''CSH''
         then ''Cash''
         else ''Stock'')"

subsection \<open>The loop over the holdings\<close>

record MatchResult =
  matched :: "MatchedHolding list"
  unmatched :: "UnmatchedHolding list"

definition match_step :: "TargetIndex \<Rightarrow> TargetAllocation list \<Rightarrow> Holding \<Rightarrow> MatchResult \<Rightarrow> MatchResult" where
  "match_step idx targets h r =
     (case find_match idx h of
        Some (t, mt) \<Rightarrow> r\<lparr>matched := matched r @ [matched_holding h t mt]\<rparr>
      | None \<Rightarrow> r\<lparr>unmatched := unmatched r @
                   [\<lparr>UnmatchedHolding.holding = h,
                     suggestedMatches = findSuggestedMatches h targets,
                     suggestedAssetType = Some (inferAssetType h)\<rparr>]\<rparr>)"

definition matchHoldingsToTargets :: "Holding list \<Rightarrow> TargetAllocation list \<Rightarrow> MatchResult" where
  "matchHoldingsToTargets holdings targets =
     fold (match_step (target_index targets) targets) holdings \<lparr>matched = [], unmatched = []\<rparr>"

subsection \<open>What it means for a holding to have a match of each kind\<close>

definition has_symbol_match :: "TargetAllocation list \<Rightarrow> Holding \<Rightarrow> bool" where
  "has_symbol_match targets h =
     (Holding.symbol h \<noteq> [] \<and>
      list_ex (\<lambda>t. (truthy (TargetAllocation.symbol t) \<and>
                     toUpperCase (the (TargetAllocation.symbol t)) = toUpperCase (Holding.symbol h)) \<or>
                    list_ex (\<lambda>a. a \<noteq> [] \<and> toUpperCase a = toUpperCase (Holding.symbol h))
                      (alternative_tickers t)) targets)"

definition has_isin_match :: "TargetAllocation list \<Rightarrow> Holding \<Rightarrow> bool" where
  "has_isin_match targets h =
     (truthy (Holding.isin h) \<and>
      list_ex (\<lambda>t. truthy (TargetAllocation.isin t) \<and>
                    toUpperCase (the (TargetAllocation.isin t)) = toUpperCase (the (Holding.isin h)))
        targets)"

definition has_category_match :: "TargetAllocation list \<Rightarrow> Holding \<Rightarrow> bool" where
  "has_category_match targets h =
     list_ex (\<lambda>t. \<not> truthy (TargetAllocation.symbol t) \<and> alternative_tickers t = [] \<and>
                   category_key (TargetAllocation.asset_type t) (TargetAllocation.asset_category t) =
                   category_key (Holding.asset_type h) (Holding.asset_category h)) targets"

section \<open>Rebalancing engine (services/rebalancing.ts)\<close>

datatype Status = needs_buy | needs_sell | balanced

datatype ActionKind = BUY | SELL | OK

record RebalancingAction =
  symbol :: string
  action :: ActionKind
  quantity :: "real option"
  amount :: real
  currentAllocation :: real
  targetAllocation :: real
  deviation :: real
  status :: Status

record AssetStatus =
  symbol :: string
  currentAllocation :: real
  targetAllocation :: real
  deviation :: real
  status :: Status
  currentValue :: real
  targetValue :: real
  adjustmentNeeded :: real
  mappedTargetSymbol :: "string option"
  assetType :: string

record RebalancingPlan =
  actions :: "RebalancingAction list"
  allAssets :: "AssetStatus list"
  totalValue :: real
  totalBuy :: real
  totalSell :: real
  netCashNeeded :: real

subsection \<open>Target lookups\<close>

type_synonym target_map = "string \<rightharpoonup> real"

fun set_alt_tickers :: "string list \<Rightarrow> real \<Rightarrow> target_map \<Rightarrow> target_map" where
  "set_alt_tickers [] p m = m"
| "set_alt_tickers (a # as) p m =
     set_alt_tickers as p (if a \<noteq> [] then m(toUpperCase a \<mapsto> p) else m)"

definition add_target :: "TargetAllocation \<Rightarrow> target_map \<times> target_map \<Rightarrow> target_map \<times> target_map" where
  "add_target t maps =
     (case maps of (tickerTargetMap, categoryTargetMap) \<Rightarrow>
        if truthy (TargetAllocation.symbol t)
        then (set_alt_tickers (alternative_tickers t) (target_percentage t)
                (tickerTargetMap(toUpperCase (the (TargetAllocation.symbol t)) \<mapsto> target_percentage t)),
              categoryTargetMap)
        else (tickerTargetMap,
              categoryTargetMap(category_key (TargetAllocation.asset_type t)
                 (TargetAllocation.asset_category t) \<mapsto> target_percentage t)))"

definition target_maps :: "TargetAllocation list \<Rightarrow> target_map \<times> target_map" where
  "target_maps targets = fold add_target targets (Map.empty, Map.empty)"

subsection \<open>Current allocation per effective symbol\<close>

record TickerAllocation =
  holding :: Holding
  allocation :: real
  mappedSymbol :: "string option"

text \<open>
  \<^verbatim>\<open>tickerAllocations\<close> is a JavaScript \<^verbatim>\<open>Map\<close>, iterated in insertion order: an
  association list with unique keys, a new key appended at the end.
\<close>

fun add_to_existing :: "string \<Rightarrow> real \<Rightarrow> (string \<times> TickerAllocation) list \<Rightarrow> (string \<times> TickerAllocation) list" where
  "add_to_existing k a [] = []"
| "add_to_existing k a ((k', e) # rest) =
     (if k' = k then (k', e\<lparr>allocation := allocation e + a\<rparr>) # rest
      else (k', e) # add_to_existing k a rest)"

definition is_cash :: "Holding \<Rightarrow> bool" where
  "is_cash h = (toUpperCase (Holding.symbol h) = ''CASH'')"

definition allocate :: "real \<Rightarrow> (string \<rightharpoonup> string) \<Rightarrow> Holding \<Rightarrow>
    (string \<times> TickerAllocation) list \<Rightarrow> (string \<times> TickerAllocation) list" where
  "allocate totalVal symbolMappings h tickerAllocations =
     (if is_cash h then tickerAllocations
      else
        let allocation' = (value_usd h / totalVal) * 100;
            holdingSymbol = toUpperCase (Holding.symbol h);
            mappedSymbol' = symbolMappings holdingSymbol;
            keySymbol = or_else mappedSymbol' holdingSymbol
        in case map_of tickerAllocations keySymbol of
             Some existing \<Rightarrow> add_to_existing keySymbol allocation' tickerAllocations
           | None \<Rightarrow> tickerAllocations @
               [(keySymbol, \<lparr>holding = h, allocation = allocation',
                             mappedSymbol = or_undefined mappedSymbol'\<rparr>)])"

definition ticker_allocations :: "Holding list \<Rightarrow> real \<Rightarrow> (string \<rightharpoonup> string) \<Rightarrow>
    (string \<times> TickerAllocation) list" where
  "ticker_allocations holdings totalVal symbolMappings =
     fold (allocate totalVal symbolMappings) holdings []"

subsection \<open>Deviation, status and action of one effective symbol\<close>

text \<open>The resolved target percentage and the flag \<^verbatim>\<open>hasAnyTarget\<close>.\<close>

definition resolve_target :: "target_map \<times> target_map \<Rightarrow> string \<times> TickerAllocation \<Rightarrow> real \<times> bool" where
  "resolve_target maps entry =
     (let tickerTargetMap = fst maps;
          categoryTargetMap = snd maps;
          e = snd entry;
          targetSymbol = or_else (mappedSymbol e) (fst entry)
      in (case tickerTargetMap targetSymbol of
            Some p \<Rightarrow> (p, True)
          | None \<Rightarrow>
             (case tickerTargetMap (toUpperCase (Holding.symbol (holding e))) of
                Some p \<Rightarrow> (p, True)
              | None \<Rightarrow>
                 (case categoryTargetMap (category_key (Holding.asset_type (holding e))
                                            (Holding.asset_category (holding e))) of
                    Some p \<Rightarrow> (p, True)
                  | None \<Rightarrow> (0, False)))))"

definition classify :: "bool \<Rightarrow> real \<Rightarrow> real \<Rightarrow> real \<Rightarrow> Status" where
  "classify hasAnyTarget targetPct currentPct tolerance =
     (let deviation' = currentPct - targetPct in
      if \<not> hasAnyTarget \<and> targetPct = 0 \<and> currentPct > 0 then needs_sell
      else if targetPct = 0 \<and> currentPct = 0 then balanced
      else if \<bar>deviation'\<bar> \<le> tolerance then balanced
      else if deviation' < 0 then needs_buy
      else needs_sell)"

definition asset_of :: "target_map \<times> target_map \<Rightarrow> real \<Rightarrow> real \<Rightarrow> string \<times> TickerAllocation \<Rightarrow> AssetStatus" where
  "asset_of maps totalVal tolerance entry =
     (case resolve_target maps entry of (targetPct, hasAnyTarget) \<Rightarrow>
      let e = snd entry;
          currentPct = allocation e;
          currentValue' = value_usd (holding e);
          targetValue' = (targetPct / 100) * totalVal;
          deviation' = currentPct - targetPct;
          adjustmentNeeded' = targetValue' - currentValue'
      in \<lparr>symbol = Holding.symbol (holding e),
          currentAllocation = currentPct,
          targetAllocation = targetPct,
          deviation = deviation',
          status = classify hasAnyTarget targetPct currentPct tolerance,
          currentValue = currentValue',
          targetValue = targetValue',
          adjustmentNeeded = adjustmentNeeded',
          mappedTargetSymbol = mappedSymbol e,
          assetType = Holding.asset_type (holding e)\<rparr>)"

definition action_of :: "target_map \<times> target_map \<Rightarrow> real \<Rightarrow> real \<Rightarrow> string \<times> TickerAllocation \<Rightarrow> RebalancingAction option" where
  "action_of maps totalVal tolerance entry =
     (case resolve_target maps entry of (targetPct, hasAnyTarget) \<Rightarrow>
      let e = snd entry;
          currentPct = allocation e;
          currentValue' = value_usd (holding e);
          targetValue' = (targetPct / 100) * totalVal;
          deviation' = currentPct - targetPct;
          adjustmentNeeded' = targetValue' - currentValue'
      in if (targetPct > 0 \<and> \<bar>deviation'\<bar> > tolerance) \<or>
            (\<not> hasAnyTarget \<and> targetPct = 0 \<and> currentPct > 0)
         then
           if \<not> hasAnyTarget \<and> targetPct = 0 \<and> currentPct > 0
           then Some \<lparr>RebalancingAction.symbol = Holding.symbol (holding e), action = SELL,
                  quantity = js_div currentValue' (price (holding e)),
                  amount = currentValue',
                  currentAllocation = currentPct, targetAllocation = targetPct,
                  deviation = currentPct, status = needs_sell\<rparr>
           else if adjustmentNeeded' > 0
           then Some \<lparr>RebalancingAction.symbol = Holding.symbol (holding e), action = BUY,
                  quantity = js_div adjustmentNeeded' (price (holding e)),
                  amount = adjustmentNeeded',
                  currentAllocation = currentPct, targetAllocation = targetPct,
                  deviation = - deviation', status = needs_buy\<rparr>
           else Some \<lparr>RebalancingAction.symbol = Holding.symbol (holding e), action = SELL,
                  quantity = js_div \<bar>adjustmentNeeded'\<bar> (price (holding e)),
                  amount = \<bar>adjustmentNeeded'\<bar>,
                  currentAllocation = currentPct, targetAllocation = targetPct,
                  deviation = deviation', status = needs_sell\<rparr>
         else None)"

subsection \<open>The loop over the effective symbols and the returned plan\<close>

record LoopState =
  acc_actions :: "RebalancingAction list"
  acc_assets :: "AssetStatus list"
  acc_buy :: real
  acc_sell :: real

definition process_entry :: "target_map \<times> target_map \<Rightarrow> real \<Rightarrow> real \<Rightarrow> string \<times> TickerAllocation \<Rightarrow> LoopState \<Rightarrow> LoopState" where
  "process_entry maps totalVal tolerance entry s =
     (let s1 = s\<lparr>acc_assets := acc_assets s @ [asset_of maps totalVal tolerance entry]\<rparr> in
      case action_of maps totalVal tolerance entry of
        None \<Rightarrow> s1
      | Some a \<Rightarrow>
          (if action a = BUY
           then s1\<lparr>acc_actions := acc_actions s1 @ [a], acc_buy := acc_buy s1 + amount a\<rparr>
           else s1\<lparr>acc_actions := acc_actions s1 @ [a], acc_sell := acc_sell s1 + amount a\<rparr>))"

definition status_order :: "Status \<Rightarrow> nat" where
  "status_order s = (case s of needs_buy \<Rightarrow> 0 | needs_sell \<Rightarrow> 1 | balanced \<Rightarrow> 2)"

text \<open>
  \<^verbatim>\<open>Array.prototype.sort\<close> is stable; both comparators are differences of keys, so
  the sorts are stable sorts by key.
\<close>

definition sort_actions :: "RebalancingAction list \<Rightarrow> RebalancingAction list" where
  "sort_actions as = sort_key (\<lambda>a. - \<bar>RebalancingAction.deviation a\<bar>) as"

definition sort_assets :: "AssetStatus list \<Rightarrow> AssetStatus list" where
  "sort_assets as =
     sort_key (\<lambda>a. (status_order (AssetStatus.status a), - \<bar>AssetStatus.deviation a\<bar>)) as"

datatype calc_error = NonFiniteAllocation

text \<open>
  The source does not guard \<^verbatim>\<open>totalValue = 0\<close>: every allocation percentage is then
  \<^verbatim>\<open>NaN\<close> or an infinity. The model returns \<open>Inl NonFiniteAllocation\<close> there (when a
  holding other than cash is divided) instead of a plan of reals. The amounts and the
  totals of the source are finite there too: \<open>calculateRebalancing_totals\<close> below gives
  them for every \<^verbatim>\<open>totalValue\<close>.
\<close>

definition calculateRebalancing :: "Holding list \<Rightarrow> TargetAllocation list \<Rightarrow> real \<Rightarrow> real \<Rightarrow>
    (string \<rightharpoonup> string) \<Rightarrow> calc_error + RebalancingPlan" where
  "calculateRebalancing holdings targets totalVal tolerance symbolMappings =
     (if totalVal = 0 \<and> list_ex (\<lambda>h. \<not> is_cash h) holdings then Inl NonFiniteAllocation
      else
        let maps = target_maps targets;
            tickerAllocations = ticker_allocations holdings totalVal symbolMappings;
            s = fold (process_entry maps totalVal tolerance) tickerAllocations
                  \<lparr>acc_actions = [], acc_assets = [], acc_buy = 0, acc_sell = 0\<rparr>
        in Inr \<lparr>actions = sort_actions (acc_actions s),
                allAssets = sort_assets (acc_assets s),
                totalValue = totalVal,
                totalBuy = acc_buy s,
                totalSell = acc_sell s,
                netCashNeeded = acc_buy s - acc_sell s\<rparr>)"

text \<open>
  The route \<^verbatim>\<open>GET /\<close> of routes/rebalancing.ts, after its database reads: with no
  target it answers an empty plan; otherwise the total portfolio value is the sum of
  \<^verbatim>\<open>value_usd\<close> over all the holdings read, and the tolerance defaults to 0.01.
\<close>

definition route_total :: "Holding list \<Rightarrow> real" where
  "route_total holdings = fold (\<lambda>h acc. acc + value_usd h) holdings 0"

definition rebalancing_route :: "Holding list \<Rightarrow> TargetAllocation list \<Rightarrow> real option \<Rightarrow>
    (string \<rightharpoonup> string) \<Rightarrow> calc_error + RebalancingPlan" where
  "rebalancing_route holdings targets tolerance symbolMappings =
     (let toleranceValue = (case tolerance of Some t \<Rightarrow> t | None \<Rightarrow> 0.01) in
      if targets = []
      then Inr \<lparr>actions = [], allAssets = [], totalValue = 0, totalBuy = 0, totalSell = 0,
                netCashNeeded = 0\<rparr>
      else calculateRebalancing holdings targets (route_total holdings) toleranceValue
             symbolMappings)"

subsection \<open>Notions used to state the properties\<close>

text \<open>The state of the loop over the effective symbols when it ends.\<close>

definition run_entries :: "TargetAllocation list \<Rightarrow> Holding list \<Rightarrow> real \<Rightarrow> real \<Rightarrow>
    (string \<rightharpoonup> string) \<Rightarrow> LoopState" where
  "run_entries ts hs tv tol sm =
     fold (process_entry (target_maps ts) tv tol) (ticker_allocations hs tv sm)
       \<lparr>acc_actions = [], acc_assets = [], acc_buy = 0, acc_sell = 0\<rparr>"

text \<open>
  The effective symbol of a holding (\<^verbatim>\<open>keySymbol\<close> in the source), the holdings of a list
  that resolve to a given effective symbol, in input order, and the allocation percentage
  of one holding.
\<close>

definition effective_symbol :: "(string \<rightharpoonup> string) \<Rightarrow> Holding \<Rightarrow> string" where
  "effective_symbol symbolMappings h =
     or_else (symbolMappings (toUpperCase (Holding.symbol h))) (toUpperCase (Holding.symbol h))"

definition contributing :: "Holding list \<Rightarrow> (string \<rightharpoonup> string) \<Rightarrow> string \<Rightarrow> Holding list" where
  "contributing holdings symbolMappings k =
     filter (\<lambda>h. \<not> is_cash h \<and> effective_symbol symbolMappings h = k) holdings"

definition percent_of :: "real \<Rightarrow> Holding \<Rightarrow> real" where
  "percent_of totalVal h = (value_usd h / totalVal) * 100"

subsection \<open>The totals at every total value\<close>

text \<open>
  The amounts and the three totals of the source are finite whatever \<^verbatim>\<open>totalValue\<close>
  is: only the allocation percentages and the deviations come from the division
  \<^verbatim>\<open>value_usd / totalValue\<close>, and the totals depend on them through the two tests
  \<^verbatim>\<open>currentPct > 0\<close> and \<^verbatim>\<open>Math.abs(deviation) > tolerance\<close> alone. The definitions
  below follow the same two loops with the percentage as a JavaScript number
  (\<^typ>\<open>js_float\<close>) and keep \<^verbatim>\<open>totalBuy\<close>, \<^verbatim>\<open>totalSell\<close> and \<^verbatim>\<open>netCashNeeded\<close>; they give
  the totals of the returned plan also when \<^verbatim>\<open>totalValue\<close> is 0.
\<close>

text \<open>\<^verbatim>\<open>(v / totalValue) * 100\<close> for finite \<open>v\<close> and \<open>totalValue\<close>.\<close>

definition js_percent :: "real \<Rightarrow> real \<Rightarrow> js_float" where
  "js_percent v totalVal =
     (if totalVal \<noteq> 0 then Finite ((v / totalVal) * 100)
      else if 0 < v then PosInfinity
      else if v < 0 then NegInfinity
      else NaN)"

text \<open>\<^verbatim>\<open>a + b\<close>.\<close>

fun js_plus :: "js_float \<Rightarrow> js_float \<Rightarrow> js_float" where
  "js_plus (Finite a) (Finite b) = Finite (a + b)"
| "js_plus NaN b = NaN"
| "js_plus a NaN = NaN"
| "js_plus PosInfinity NegInfinity = NaN"
| "js_plus NegInfinity PosInfinity = NaN"
| "js_plus PosInfinity b = PosInfinity"
| "js_plus a PosInfinity = PosInfinity"
| "js_plus NegInfinity b = NegInfinity"
| "js_plus a NegInfinity = NegInfinity"

text \<open>\<^verbatim>\<open>a - t\<close> for a finite \<open>t\<close>.\<close>

definition js_minus :: "js_float \<Rightarrow> real \<Rightarrow> js_float" where
  "js_minus a t = (case a of Finite x \<Rightarrow> Finite (x - t) | _ \<Rightarrow> a)"

text \<open>\<^verbatim>\<open>a > 0\<close>.\<close>

definition js_positive :: "js_float \<Rightarrow> bool" where
  "js_positive a = (case a of Finite x \<Rightarrow> x > 0 | PosInfinity \<Rightarrow> True | _ \<Rightarrow> False)"

text \<open>\<^verbatim>\<open>Math.abs(a) > t\<close> for a finite \<open>t\<close>.\<close>

definition js_abs_exceeds :: "js_float \<Rightarrow> real \<Rightarrow> bool" where
  "js_abs_exceeds a t =
     (case a of Finite x \<Rightarrow> \<bar>x\<bar> > t | PosInfinity \<Rightarrow> True | NegInfinity \<Rightarrow> True
      | NaN \<Rightarrow> False)"

record JsTickerAllocation =
  js_holding :: Holding
  js_allocation :: js_float
  js_mappedSymbol :: "string option"

fun js_add_to_existing :: "string \<Rightarrow> js_float \<Rightarrow> (string \<times> JsTickerAllocation) list \<Rightarrow>
    (string \<times> JsTickerAllocation) list" where
  "js_add_to_existing k a [] = []"
| "js_add_to_existing k a ((k', e) # rest) =
     (if k' = k then (k', e\<lparr>js_allocation := js_plus (js_allocation e) a\<rparr>) # rest
      else (k', e) # js_add_to_existing k a rest)"

definition js_allocate :: "real \<Rightarrow> (string \<rightharpoonup> string) \<Rightarrow> Holding \<Rightarrow>
    (string \<times> JsTickerAllocation) list \<Rightarrow> (string \<times> JsTickerAllocation) list" where
  "js_allocate totalVal symbolMappings h tickerAllocations =
     (if is_cash h then tickerAllocations
      else
        let allocation' = js_percent (value_usd h) totalVal;
            holdingSymbol = toUpperCase (Holding.symbol h);
            mappedSymbol' = symbolMappings holdingSymbol;
            keySymbol = or_else mappedSymbol' holdingSymbol
        in case map_of tickerAllocations keySymbol of
             Some existing \<Rightarrow> js_add_to_existing keySymbol allocation' tickerAllocations
           | None \<Rightarrow> tickerAllocations @
               [(keySymbol, \<lparr>js_holding = h, js_allocation = allocation',
                             js_mappedSymbol = or_undefined mappedSymbol'\<rparr>)])"

definition js_ticker_allocations :: "Holding list \<Rightarrow> real \<Rightarrow> (string \<rightharpoonup> string) \<Rightarrow>
    (string \<times> JsTickerAllocation) list" where
  "js_ticker_allocations holdings totalVal symbolMappings =
     fold (js_allocate totalVal symbolMappings) holdings []"

definition js_resolve_target :: "target_map \<times> target_map \<Rightarrow> string \<times> JsTickerAllocation \<Rightarrow>
    real \<times> bool" where
  "js_resolve_target maps entry =
     (let tickerTargetMap = fst maps;
          categoryTargetMap = snd maps;
          e = snd entry;
          targetSymbol = or_else (js_mappedSymbol e) (fst entry)
      in (case tickerTargetMap targetSymbol of
            Some p \<Rightarrow> (p, True)
          | None \<Rightarrow>
             (case tickerTargetMap (toUpperCase (Holding.symbol (js_holding e))) of
                Some p \<Rightarrow> (p, True)
              | None \<Rightarrow>
                 (case categoryTargetMap (category_key (Holding.asset_type (js_holding e))
                                            (Holding.asset_category (js_holding e))) of
                    Some p \<Rightarrow> (p, True)
                  | None \<Rightarrow> (0, False)))))"

text \<open>
  One turn of the second loop on the pair (\<^verbatim>\<open>totalBuy\<close>, \<^verbatim>\<open>totalSell\<close>): the forced
  full-exit SELL adds \<^verbatim>\<open>currentValue\<close> to \<^verbatim>\<open>totalSell\<close>, a BUY adds
  \<^verbatim>\<open>adjustmentNeeded\<close> to \<^verbatim>\<open>totalBuy\<close>, any other SELL adds
  \<^verbatim>\<open>Math.abs(adjustmentNeeded)\<close> to \<^verbatim>\<open>totalSell\<close>.
\<close>

definition totals_entry :: "target_map \<times> target_map \<Rightarrow> real \<Rightarrow> real \<Rightarrow>
    string \<times> JsTickerAllocation \<Rightarrow> real \<times> real \<Rightarrow> real \<times> real" where
  "totals_entry maps totalVal tolerance entry totals =
     (case js_resolve_target maps entry of (targetPct, hasAnyTarget) \<Rightarrow>
      let e = snd entry;
          currentPct = js_allocation e;
          currentValue' = value_usd (js_holding e);
          targetValue' = (targetPct / 100) * totalVal;
          deviation' = js_minus currentPct targetPct;
          adjustmentNeeded' = targetValue' - currentValue';
          totalBuy' = fst totals;
          totalSell' = snd totals
      in if (targetPct > 0 \<and> js_abs_exceeds deviation' tolerance) \<or>
            (\<not> hasAnyTarget \<and> targetPct = 0 \<and> js_positive currentPct)
         then
           if \<not> hasAnyTarget \<and> targetPct = 0 \<and> js_positive currentPct
           then (totalBuy', totalSell' + currentValue')
           else if adjustmentNeeded' > 0
           then (totalBuy' + adjustmentNeeded', totalSell')
           else (totalBuy', totalSell' + \<bar>adjustmentNeeded'\<bar>)
         else totals)"

text \<open>The triple (\<^verbatim>\<open>totalBuy\<close>, \<^verbatim>\<open>totalSell\<close>, \<^verbatim>\<open>netCashNeeded\<close>) of the returned plan.\<close>

definition calculateRebalancing_totals :: "Holding list \<Rightarrow> TargetAllocation list \<Rightarrow> real \<Rightarrow>
    real \<Rightarrow> (string \<rightharpoonup> string) \<Rightarrow> real \<times> real \<times> real" where
  "calculateRebalancing_totals holdings targets totalVal tolerance symbolMappings =
     (let maps = target_maps targets;
          tickerAllocations = js_ticker_allocations holdings totalVal symbolMappings;
          totals = fold (totals_entry maps totalVal tolerance) tickerAllocations (0, 0)
      in (fst totals, snd totals, fst totals - snd totals))"

text \<open>An entry of \<^verbatim>\<open>tickerAllocations\<close> whose percentage is finite, as an entry of the loops above.\<close>

definition finite_entry :: "string \<times> TickerAllocation \<Rightarrow> string \<times> JsTickerAllocation" where
  "finite_entry x =
     (fst x, \<lparr>js_holding = holding (snd x), js_allocation = Finite (allocation (snd x)),
              js_mappedSymbol = mappedSymbol (snd x)\<rparr>)"

section \<open>Target-file parsers (parsers/csvTargetParser.ts, parsers/targetExcelParser.ts)\<close>

subsection \<open>What both parsers share\<close>

definition normalizeAssetType :: "string \<Rightarrow> string" where
  "normalizeAssetType assetType' =
     (let normalized = trim assetType'; l = toLowerCase normalized
      in if str_includes l ''share'' \<or> str_includes l ''stock'' then ''Stock''
         else if str_includes l ''bond'' then ''Bond''
         else if str_includes l ''money market'' \<or> str_includes l ''cash'' then ''Cash''
         else if str_includes l ''commodit'' then ''Commodity''
         else if str_includes l ''reit'' \<or> str_includes l ''real estate'' then ''REIT''
         else if str_includes l ''crypto'' then ''Crypto''
         else normalized)"

text \<open>\<^verbatim>\<open>s.replace(/%/g, '')\<close>.\<close>

definition remove_percent :: "string \<Rightarrow> string" where
  "remove_percent s = filter (\<lambda>c. c \<noteq> CHR ''%'') s"

text \<open>
  \<^verbatim>\<open>if (!isNaN(percentage) && percentage > 0 && percentage < 1) percentage = percentage * 100\<close>
\<close>

definition scale_fraction :: "js_float \<Rightarrow> js_float" where
  "scale_fraction p =
     (case p of Finite x \<Rightarrow> if 0 < x \<and> x < 1 then Finite (x * 100) else Finite x
              | _ \<Rightarrow> p)"

text \<open>\<^verbatim>\<open>isNaN(percentage) || percentage < 0 || percentage > 100\<close>\<close>

definition invalid_percentage :: "js_float \<Rightarrow> bool" where
  "invalid_percentage p =
     (case p of Finite x \<Rightarrow> x < 0 \<or> x > 100
              | PosInfinity \<Rightarrow> True | NegInfinity \<Rightarrow> True | NaN \<Rightarrow> True)"

definition finite_value :: "js_float \<Rightarrow> real" where
  "finite_value p = (case p of Finite x \<Rightarrow> x | _ \<Rightarrow> 0)"

text \<open>
  What one iteration of a row loop does: \<^verbatim>\<open>continue\<close> with nothing pushed, an error
  pushed, a target pushed (with the warnings of the row), or an exception thrown.
\<close>

datatype 'a row_outcome =
  RowSkipped | RowError string | RowTarget 'a "string list" | RowThrows string

definition missing_asset_type_error :: "nat \<Rightarrow> string" where
  "missing_asset_type_error i = ''Row '' @ show_nat (i + 1) @ '': Missing Asset Type''"

definition invalid_percentage_error :: "nat \<Rightarrow> string \<Rightarrow> string" where
  "invalid_percentage_error i raw =
     ''Row '' @ show_nat (i + 1) @ '': Invalid percentage ('' @ raw @ '')''"

definition total_warning :: "real \<Rightarrow> string list" where
  "total_warning totalPercentage =
     (if \<bar>totalPercentage - 100\<bar> > 0.01
      then [''Total target allocation is '' @ toFixed2 totalPercentage @ ''%, not 100%. '' @
            ''This may be intentional if some categories are excluded.'']
      else [])"

subsection \<open>The CSV parser\<close>

record CsvTargetRow =
  assetType :: string
  assetCategory :: "string option"
  instrument :: "string option"
  isin :: "string option"
  mainTicker :: "string option"
  otherTickers :: "string list option"
  targetPercentage :: real

record ParsedCsvTargetsResult =
  targets :: "CsvTargetRow list"
  warnings :: "string list"
  errors :: "string list"

text \<open>\<^verbatim>\<open>parseCsvLine\<close>: the fields of a line, with quoted fields and doubled quotes.\<close>

fun csv_fields :: "string \<Rightarrow> string \<Rightarrow> bool \<Rightarrow> string list" where
  "csv_fields [] current inQuotes = [current]"
| "csv_fields [c] current inQuotes =
     (if c = CHR 0x22 then [current]
      else if c = CHR '','' \<and> \<not> inQuotes then [current, []]
      else [current @ [c]])"
| "csv_fields (c # c' # cs) current inQuotes =
     (if c = CHR 0x22
      then (if inQuotes \<and> c' = CHR 0x22 then csv_fields cs (current @ [CHR 0x22]) inQuotes
            else csv_fields (c' # cs) current (\<not> inQuotes))
      else if c = CHR '','' \<and> \<not> inQuotes then current # csv_fields (c' # cs) [] inQuotes
      else csv_fields (c' # cs) (current @ [c]) inQuotes)"

definition parseCsvLine :: "string \<Rightarrow> string list" where
  "parseCsvLine line = csv_fields line [] False"

record CsvHeaderMap =
  assetType :: "nat option"
  assetCategory :: "nat option"
  instrument :: "nat option"
  isin :: "nat option"
  mainTicker :: "nat option"
  percentage :: "nat option"
  otherTickers :: "nat option"

definition csv_header_step :: "string \<times> nat \<Rightarrow> CsvHeaderMap \<Rightarrow> CsvHeaderMap" where
  "csv_header_step hi headerMap =
     (let normalized = trim (toLowerCase (fst hi)); index = snd hi
      in if str_includes normalized ''asset type'' \<or> normalized = ''asset type''
         then headerMap\<lparr>CsvHeaderMap.assetType := Some index\<rparr>
         else if str_includes normalized ''asset category'' \<or> normalized = ''asset category''
         then headerMap\<lparr>CsvHeaderMap.assetCategory := Some index\<rparr>
         else if str_includes normalized ''instrument''
         then headerMap\<lparr>CsvHeaderMap.instrument := Some index\<rparr>
         else if str_includes normalized ''isin''
         then headerMap\<lparr>CsvHeaderMap.isin := Some index\<rparr>
         else if str_includes normalized ''main ticker'' \<or> normalized = ''main ticker''
         then headerMap\<lparr>CsvHeaderMap.mainTicker := Some index\<rparr>
         else if str_includes normalized ''ticker'' \<and> \<not> str_includes normalized ''other'' \<and>
                 \<not> str_includes normalized ''main''
         then (if CsvHeaderMap.mainTicker headerMap = None
               then headerMap\<lparr>CsvHeaderMap.mainTicker := Some index\<rparr>
               else headerMap)
         else if str_includes normalized ''%'' \<or> str_includes normalized ''percent'' \<or>
                 normalized = ''%''
         then headerMap\<lparr>CsvHeaderMap.percentage := Some index\<rparr>
         else if str_includes normalized ''other ticker'' \<or> normalized = ''other tickers''
         then headerMap\<lparr>CsvHeaderMap.otherTickers := Some index\<rparr>
         else headerMap)"

definition csv_header_map :: "string list \<Rightarrow> CsvHeaderMap" where
  "csv_header_map headers =
     fold csv_header_step (zip headers [0..<length headers])
       \<lparr>CsvHeaderMap.assetType = None, assetCategory = None, instrument = None, isin = None,
        mainTicker = None, percentage = None, otherTickers = None\<rparr>"

text \<open>\<^verbatim>\<open>row[idx]?.trim() || undefined\<close> for a column that may be absent from the header.\<close>

definition csv_optional :: "string list \<Rightarrow> nat option \<Rightarrow> string option" where
  "csv_optional row idx =
     (case idx of
        None \<Rightarrow> None
      | Some k \<Rightarrow> or_undefined (map_option trim (at_index row k)))"

text \<open>\<^verbatim>\<open>row[headerMap['percentage']]?.replace(/%/g, '').trim() || '0'\<close>\<close>

definition csv_raw_percentage :: "string list \<Rightarrow> nat \<Rightarrow> string" where
  "csv_raw_percentage row k =
     or_else (map_option (\<lambda>s. trim (remove_percent s)) (at_index row k)) ''0''"

definition csv_percentage :: "string list \<Rightarrow> nat \<Rightarrow> js_float" where
  "csv_percentage row k = scale_fraction (parseFloat (csv_raw_percentage row k))"

definition csv_other_tickers :: "string list \<Rightarrow> nat option \<Rightarrow> string list" where
  "csv_other_tickers row idx =
     (case idx of
        None \<Rightarrow> []
      | Some k \<Rightarrow>
         (let otherTickersStr = or_else (map_option trim (at_index row k)) ''''
          in if otherTickersStr \<noteq> []
             then filter (\<lambda>t. length t > 0)
                    (map trim (split_where (\<lambda>c. c = CHR ''|'' \<or> c = CHR '','') otherTickersStr))
             else []))"

text \<open>
  The body of the loop over the data rows, for the line at index \<open>i\<close>. The two required
  columns are at \<open>typeIdx\<close> (asset type) and \<open>pctIdx\<close> (percentage).
\<close>

definition csv_row :: "CsvHeaderMap \<Rightarrow> nat \<Rightarrow> string \<Rightarrow> CsvTargetRow row_outcome" where
  "csv_row headerMap i line =
     (if trim line = [] then RowSkipped
      else
        let row = parseCsvLine line;
            typeIdx = the (CsvHeaderMap.assetType headerMap);
            pctIdx = the (CsvHeaderMap.percentage headerMap);
            assetType' = or_else (map_option trim (at_index row typeIdx)) '''';
            assetCategory' = csv_optional row (CsvHeaderMap.assetCategory headerMap);
            instrument' = csv_optional row (CsvHeaderMap.instrument headerMap);
            isin' = csv_optional row (CsvHeaderMap.isin headerMap);
            mainTicker' = csv_optional row (CsvHeaderMap.mainTicker headerMap);
            percentage' = csv_percentage row pctIdx;
            otherTickers' = csv_other_tickers row (CsvHeaderMap.otherTickers headerMap)
        in if assetType' = [] then RowError (missing_asset_type_error i)
           else if invalid_percentage percentage'
           then RowError (invalid_percentage_error i
                   (case at_index row pctIdx of None \<Rightarrow> ''undefined'' | Some s \<Rightarrow> s))
           else if percentage' = Finite 0 then RowSkipped
           else RowTarget
                  \<lparr>CsvTargetRow.assetType = normalizeAssetType assetType',
                   assetCategory = or_undefined assetCategory',
                   instrument = or_undefined instrument',
                   isin = or_undefined isin',
                   mainTicker = or_undefined mainTicker',
                   otherTickers = (if length otherTickers' > 0 then Some otherTickers' else None),
                   targetPercentage = finite_value percentage'\<rparr> [])"

fun csv_rows :: "CsvHeaderMap \<Rightarrow> nat \<Rightarrow> string list \<Rightarrow> CsvTargetRow list \<times> string list \<Rightarrow>
    CsvTargetRow list \<times> string list" where
  "csv_rows headerMap i [] acc = acc"
| "csv_rows headerMap i (line # rest) acc =
     csv_rows headerMap (i + 1) rest
       (case csv_row headerMap i line of
          RowTarget t w \<Rightarrow> (fst acc @ [t], snd acc)
        | RowError e \<Rightarrow> (fst acc, snd acc @ [e])
        | _ \<Rightarrow> acc)"

definition csv_lines :: "string \<Rightarrow> string list" where
  "csv_lines csvText = filter (\<lambda>line. line \<noteq> []) (map trim (split_where (\<lambda>c. c = CHR 0x0A) csvText))"

definition parseTargetCsv :: "string \<Rightarrow> ParsedCsvTargetsResult" where
  "parseTargetCsv csvText =
     (let lines = csv_lines csvText in
      if length lines < 2
      then \<lparr>targets = [], warnings = [],
            errors = [''CSV file must have at least a header row and one data row'']\<rparr>
      else
        let headerMap = csv_header_map (parseCsvLine (hd lines)) in
        if CsvHeaderMap.assetType headerMap = None \<or> CsvHeaderMap.percentage headerMap = None
        then \<lparr>targets = [], warnings = [],
              errors = [''CSV file must contain \"Asset Type\" and \"%\" columns'']\<rparr>
        else
          let acc = csv_rows headerMap 1 (tl lines) ([], []);
              totalPercentage = fold (\<lambda>t s. s + CsvTargetRow.targetPercentage t) (fst acc) 0
          in \<lparr>targets = fst acc, warnings = total_warning totalPercentage, errors = snd acc\<rparr>)"

subsection \<open>The Excel parser\<close>

text \<open>
  The parser reads the first worksheet as rows of cells (\<^verbatim>\<open>sheet_to_json\<close> with
  \<^verbatim>\<open>header: 1, defval: ''\<close>); reading the workbook is outside the model. A cell is a
  string or a number. A number is kept as the text \<^verbatim>\<open>String(n)\<close>, which is all the
  parser reads of it, but for its truthiness: \<^verbatim>\<open>!cell\<close> holds for the numbers printed
  \<^verbatim>\<open>0\<close> and \<^verbatim>\<open>NaN\<close>, and for the empty string.
\<close>

datatype cell = CStr string | CNum string

definition cell_falsy :: "cell \<Rightarrow> bool" where
  "cell_falsy c = (case c of CStr s \<Rightarrow> s = [] | CNum s \<Rightarrow> s = ''0'' \<or> s = ''NaN'')"

definition cell_string :: "cell \<Rightarrow> string" where
  "cell_string c = (case c of CStr s \<Rightarrow> s | CNum s \<Rightarrow> s)"

text \<open>\<^verbatim>\<open>String(row[k] || d)\<close>, and the template literal \<^verbatim>\<open>${row[k]}\<close>.\<close>

definition string_or :: "cell option \<Rightarrow> string \<Rightarrow> string" where
  "string_or c d =
     (case c of None \<Rightarrow> d | Some x \<Rightarrow> if cell_falsy x then d else cell_string x)"

definition cell_template :: "cell option \<Rightarrow> string" where
  "cell_template c = (case c of None \<Rightarrow> ''undefined'' | Some x \<Rightarrow> cell_string x)"

record ExcelTargetRow =
  assetType :: string
  assetCategory :: "string option"
  instrument :: string
  isin :: "string option"
  ticker :: "string option"
  targetPercentage :: real

record ParsedTargetsResult =
  targets :: "ExcelTargetRow list"
  warnings :: "string list"
  errors :: "string list"

definition VALID_CATEGORIES :: "(string \<times> string list) list" where
  "VALID_CATEGORIES =
     [(''Shares'', [''US Stock market'', ''World stock market (no US)'', ''EU'',
                    ''Global World Market'', ''Emerging Markets'']),
      (''Money Markets Funds'', [''Money Markets Funds'',
                    ''Money Markets Funds / Short terms bond'', ''Short Term Bonds'']),
      (''Bonds'', [''Medium Term Government Bonds (ETF)'', ''Corporate Bonds'',
                   ''Long Term Government Bonds'', ''Inflation Linked Bonds'']),
      (''Commodities'', [''Gold'', ''Silver'', ''Crypto'', ''Other Commodities'']),
      (''REIT'', [''REIT (US)'', ''REIT (Global)'', ''REIT (EU)'']),
      (''Stock'', [''US Stock market'', ''World stock market (no US)'', ''EU'',
                   ''Global World Market'', ''Emerging Markets'']),
      (''Cash'', [''Money Markets Funds'', ''Short Term Bonds'']),
      (''Crypto'', [''Crypto''])]"

text \<open>
  \<^verbatim>\<open>VALID_CATEGORIES\<close> is an object literal, so a key it does not own is looked up in
  \<^verbatim>\<open>Object.prototype\<close>: under one of the names below the lookup yields a function (or
  the prototype object), which is truthy and has no method \<^verbatim>\<open>some\<close>.
\<close>

definition object_prototype_keys :: "string list" where
  "object_prototype_keys =
     [''constructor'', ''__defineGetter__'', ''__defineSetter__'', ''hasOwnProperty'',
      ''__lookupGetter__'', ''__lookupSetter__'', ''isPrototypeOf'', ''propertyIsEnumerable'',
      ''toString'', ''valueOf'', ''__proto__'', ''toLocaleString'']"

text \<open>\<^verbatim>\<open>VALID_CATEGORIES[key] || []\<close>: \<open>None\<close> when the value is not an array.\<close>

definition valid_categories :: "string \<Rightarrow> string list option" where
  "valid_categories key =
     (case map_of VALID_CATEGORIES key of
        Some cats \<Rightarrow> Some cats
      | None \<Rightarrow> if key \<in> set object_prototype_keys then None else Some [])"

record ExcelHeaderMap =
  assetType :: nat
  assetCategory :: "nat option"
  instrument :: "nat option"
  isin :: "nat option"
  ticker :: "nat option"
  percentage :: nat

definition excel_header_of :: "cell list \<Rightarrow> ExcelHeaderMap option" where
  "excel_header_of cells =
     (let row = map (\<lambda>cell. trim (toLowerCase (string_or (Some cell) ''''))) cells;
          assetTypeIdx = find_index (\<lambda>cell. str_includes cell ''asset type'' \<or>
                            str_includes cell ''assettype'' \<or> cell = ''asset type'') row;
          assetCategoryIdx = find_index (\<lambda>cell. str_includes cell ''asset category'' \<or>
                            str_includes cell ''assetcategory'' \<or> cell = ''asset category'') row;
          percentageIdx = find_index (\<lambda>cell. str_includes cell ''%'' \<or>
                            str_includes cell ''percent'' \<or> str_includes cell ''target'' \<or>
                            str_includes cell ''target holding'' \<or> cell = ''% target holding'') row
      in case (assetTypeIdx, percentageIdx) of
           (Some a, Some p) \<Rightarrow>
             Some \<lparr>ExcelHeaderMap.assetType = a,
                   assetCategory = assetCategoryIdx,
                   instrument = find_index (\<lambda>cell. str_includes cell ''instrument'' \<or>
                                  str_includes cell ''fund'' \<or> cell = ''instrument'') row,
                   isin = find_index (\<lambda>cell. str_includes cell ''isin'' \<or> cell = ''isin'') row,
                   ticker = find_index (\<lambda>cell. str_includes cell ''ticker'' \<or>
                                  str_includes cell ''symbol'' \<or> cell = ''ticker'') row,
                   percentage = p\<rparr>
         | _ \<Rightarrow> None)"

text \<open>The header row is looked for among the first five rows.\<close>

fun find_header :: "cell list list \<Rightarrow> nat \<Rightarrow> (nat \<times> ExcelHeaderMap) option" where
  "find_header [] i = None"
| "find_header (cells # rest) i =
     (if i < 5
      then (case excel_header_of cells of
              Some headerMap \<Rightarrow> Some (i, headerMap)
            | None \<Rightarrow> find_header rest (i + 1))
      else None)"

definition excel_text :: "cell list \<Rightarrow> nat option \<Rightarrow> string" where
  "excel_text row idx =
     (case idx of None \<Rightarrow> '''' | Some k \<Rightarrow> trim (string_or (at_index row k) ''''))"

definition excel_percentage :: "cell list \<Rightarrow> nat \<Rightarrow> js_float" where
  "excel_percentage row k =
     scale_fraction (parseFloat (trim (remove_percent (string_or (at_index row k) ''0''))))"

definition empty_row :: "cell list \<Rightarrow> bool" where
  "empty_row row = list_all (\<lambda>cell. cell_falsy cell \<or> trim (cell_string cell) = []) row"

definition category_warning :: "nat \<Rightarrow> string \<Rightarrow> string \<Rightarrow> string list \<Rightarrow> string" where
  "category_warning i assetCategory' assetType' validCategories =
     ''Row '' @ show_nat (i + 1) @ '': Asset category \"'' @ assetCategory' @ ''\" for \"'' @
     assetType' @ ''\" may not match common categories. '' @
     ''Expected: '' @ join '', '' validCategories"

definition excel_row :: "ExcelHeaderMap \<Rightarrow> nat \<Rightarrow> cell list \<Rightarrow> ExcelTargetRow row_outcome" where
  "excel_row headerMap i row =
     (if empty_row row then RowSkipped
      else
        let assetType' = trim (string_or (at_index row (ExcelHeaderMap.assetType headerMap)) '''');
            assetCategory' = excel_text row (ExcelHeaderMap.assetCategory headerMap);
            percentage' = excel_percentage row (ExcelHeaderMap.percentage headerMap)
        in if assetType' = [] then RowError (missing_asset_type_error i)
           else if invalid_percentage percentage'
           then RowError (invalid_percentage_error i
                   (cell_template (at_index row (ExcelHeaderMap.percentage headerMap))))
           else if percentage' = Finite 0 then RowSkipped
           else
             let normalizedAssetType = normalizeAssetType assetType';
                 target = \<lparr>ExcelTargetRow.assetType = normalizedAssetType,
                           assetCategory = or_undefined (Some assetCategory'),
                           instrument = excel_text row (ExcelHeaderMap.instrument headerMap),
                           isin = or_undefined (Some (excel_text row (ExcelHeaderMap.isin headerMap))),
                           ticker = or_undefined (Some (excel_text row (ExcelHeaderMap.ticker headerMap))),
                           targetPercentage = finite_value percentage'\<rparr>
             in if assetCategory' \<noteq> []
                then (case valid_categories normalizedAssetType of
                        None \<Rightarrow> RowThrows ''validCategories.some is not a function''
                      | Some validCategories \<Rightarrow>
                         (let normalizedCategory = trim (toLowerCase assetCategory');
                              isValid = list_ex (\<lambda>cat. trim (toLowerCase cat) = normalizedCategory)
                                          validCategories
                          in if \<not> isValid \<and> length validCategories > 0
                             then RowTarget target
                                    [category_warning i assetCategory' assetType' validCategories]
                             else RowTarget target []))
                else RowTarget target [])"

record ExcelLoopState =
  acc_targets :: "ExcelTargetRow list"
  acc_warnings :: "string list"
  acc_errors :: "string list"

text \<open>The loop over the data rows; \<open>Inl\<close> is the message of an exception thrown in it.\<close>

fun excel_rows :: "ExcelHeaderMap \<Rightarrow> nat \<Rightarrow> cell list list \<Rightarrow> ExcelLoopState \<Rightarrow>
    string + ExcelLoopState" where
  "excel_rows headerMap i [] s = Inr s"
| "excel_rows headerMap i (row # rest) s =
     (case excel_row headerMap i row of
        RowSkipped \<Rightarrow> excel_rows headerMap (i + 1) rest s
      | RowError e \<Rightarrow> excel_rows headerMap (i + 1) rest (s\<lparr>acc_errors := acc_errors s @ [e]\<rparr>)
      | RowTarget t w \<Rightarrow>
          excel_rows headerMap (i + 1) rest
            (s\<lparr>acc_targets := acc_targets s @ [t], acc_warnings := acc_warnings s @ w\<rparr>)
      | RowThrows msg \<Rightarrow> Inl msg)"

text \<open>
  \<^verbatim>\<open>parseTargetExcel\<close> from the rows of the first worksheet on. An exception thrown in
  the loop is caught by the handler around the whole body, which answers no target at
  all.
\<close>

definition parseTargetExcel :: "cell list list \<Rightarrow> ParsedTargetsResult" where
  "parseTargetExcel data' =
     (if length data' < 2
      then \<lparr>targets = [], warnings = [],
            errors = [''Excel file must have at least a header row and one data row'']\<rparr>
      else
        case find_header data' 0 of
          None \<Rightarrow> \<lparr>targets = [], warnings = [],
                    errors = [''Could not find header row with required columns (Asset Type, %)'']\<rparr>
        | Some (headerRowIndex, headerMap) \<Rightarrow>
           (case excel_rows headerMap (headerRowIndex + 1) (drop (headerRowIndex + 1) data')
                   \<lparr>acc_targets = [], acc_warnings = [], acc_errors = []\<rparr> of
              Inl msg \<Rightarrow> \<lparr>targets = [], warnings = [],
                           errors = [''Failed to read Excel file: '' @ msg]\<rparr>
            | Inr s \<Rightarrow>
               (let totalPercentage =
                      fold (\<lambda>t sm. sm + ExcelTargetRow.targetPercentage t) (acc_targets s) 0
                in \<lparr>targets = acc_targets s,
                    warnings = acc_warnings s @ total_warning totalPercentage,
                    errors = acc_errors s\<rparr>)))"

subsection \<open>Notions used to state the properties of the target parsers\<close>

text \<open>What a list of row outcomes pushes on each of the three result lists.\<close>

definition targets_of :: "'a row_outcome list \<Rightarrow> 'a list" where
  "targets_of os = concat (map (\<lambda>out. case out of RowTarget t w \<Rightarrow> [t] | _ \<Rightarrow> []) os)"

definition errors_of :: "'a row_outcome list \<Rightarrow> string list" where
  "errors_of os = concat (map (\<lambda>out. case out of RowError e \<Rightarrow> [e] | _ \<Rightarrow> []) os)"

definition warnings_of :: "'a row_outcome list \<Rightarrow> string list" where
  "warnings_of os = concat (map (\<lambda>out. case out of RowTarget t w \<Rightarrow> w | _ \<Rightarrow> []) os)"

text \<open>
  The header map of a CSV text that gets past the two early returns, and the data rows
  with the index \<open>i\<close> the loop gives them.
\<close>

definition csv_header :: "string \<Rightarrow> CsvHeaderMap option" where
  "csv_header csvText =
     (let lines = csv_lines csvText in
      if length lines < 2 then None
      else let headerMap = csv_header_map (parseCsvLine (hd lines)) in
           if CsvHeaderMap.assetType headerMap = None \<or> CsvHeaderMap.percentage headerMap = None
           then None else Some headerMap)"

definition csv_data_rows :: "string \<Rightarrow> (nat \<times> string) list" where
  "csv_data_rows csvText = List.enumerate 1 (tl (csv_lines csvText))"

text \<open>
  A row is invalid when its asset type is missing or its percentage, after the scaling of
  fractions, is not a number in [0, 100].
\<close>

definition csv_asset_type :: "CsvHeaderMap \<Rightarrow> string \<Rightarrow> string" where
  "csv_asset_type headerMap line =
     or_else (map_option trim (at_index (parseCsvLine line)
                (the (CsvHeaderMap.assetType headerMap)))) ''''"

definition csv_parsed_percentage :: "CsvHeaderMap \<Rightarrow> string \<Rightarrow> js_float" where
  "csv_parsed_percentage headerMap line =
     parseFloat (csv_raw_percentage (parseCsvLine line) (the (CsvHeaderMap.percentage headerMap)))"

definition csv_row_invalid :: "CsvHeaderMap \<Rightarrow> string \<Rightarrow> bool" where
  "csv_row_invalid headerMap line =
     (csv_asset_type headerMap line = [] \<or>
      invalid_percentage (scale_fraction (csv_parsed_percentage headerMap line)))"

definition excel_asset_type :: "ExcelHeaderMap \<Rightarrow> cell list \<Rightarrow> string" where
  "excel_asset_type headerMap row =
     trim (string_or (at_index row (ExcelHeaderMap.assetType headerMap)) '''')"

definition excel_parsed_percentage :: "ExcelHeaderMap \<Rightarrow> cell list \<Rightarrow> js_float" where
  "excel_parsed_percentage headerMap row =
     parseFloat (trim (remove_percent
        (string_or (at_index row (ExcelHeaderMap.percentage headerMap)) ''0'')))"

definition excel_row_invalid :: "ExcelHeaderMap \<Rightarrow> cell list \<Rightarrow> bool" where
  "excel_row_invalid headerMap row =
     (excel_asset_type headerMap row = [] \<or>
      invalid_percentage (scale_fraction (excel_parsed_percentage headerMap row)))"

text \<open>
  The rows on which the category check throws: a category is given and the normalized
  asset type is the name of a property of \<^verbatim>\<open>Object.prototype\<close>.
\<close>

definition category_check_throws :: "ExcelHeaderMap \<Rightarrow> cell list \<Rightarrow> bool" where
  "category_check_throws headerMap row =
     (excel_text row (ExcelHeaderMap.assetCategory headerMap) \<noteq> [] \<and>
      valid_categories (normalizeAssetType (excel_asset_type headerMap row)) = None)"

definition excel_data_rows :: "nat \<Rightarrow> cell list list \<Rightarrow> (nat \<times> cell list) list" where
  "excel_data_rows headerRowIndex data' =
     List.enumerate (headerRowIndex + 1) (drop (headerRowIndex + 1) data')"

section \<open>Example data\<close>

definition example_holding :: "string \<Rightarrow> string \<Rightarrow> real \<Rightarrow> real \<Rightarrow> Holding" where
  "example_holding s ty p v =
     \<lparr>Holding.id' = 0, account_id = 1, symbol = s, isin = None, instrument_name = None,
      asset_type = ty, asset_category = None, quantity = v / p, price = p,
      currency = ''USD'', value_usd = v, value_base = v, statement_date = ''2025-02-28''\<rparr>"

definition example_target :: "string \<Rightarrow> string \<Rightarrow> real \<Rightarrow> TargetAllocation" where
  "example_target s ty p =
     \<lparr>TargetAllocation.id' = 1, asset_type = ty, asset_category = None, symbol = Some s,
      alternative_tickers = [], isin = None, target_percentage = p, bucket = None\<rparr>"

definition example_holdings :: "Holding list" where
  "example_holdings =
     [example_holding ''VTI'' ''Stock'' 10 300,
      example_holding ''vtiq'' ''Stock'' 20 200,
      example_holding ''XYZ'' ''Other'' 5 100,
      example_holding ''Cash'' ''Cash'' 400 400]"

definition example_targets :: "TargetAllocation list" where
  "example_targets = [example_target ''VTI'' ''Stock'' 38]"

definition example_mappings :: "string \<rightharpoonup> string" where
  "example_mappings = [''VTIQ'' \<mapsto> ''VTI'']"

definition example_plan :: RebalancingPlan where
  "example_plan =
     \<lparr>actions =
        [\<lparr>RebalancingAction.symbol = ''VTI'', action = BUY, quantity = Some 8, amount = 80,
          currentAllocation = 50, targetAllocation = 38, deviation = - 12, status = needs_buy\<rparr>,
         \<lparr>RebalancingAction.symbol = ''XYZ'', action = SELL, quantity = Some 20, amount = 100,
          currentAllocation = 10, targetAllocation = 0, deviation = 10, status = needs_sell\<rparr>],
      allAssets =
        [\<lparr>AssetStatus.symbol = ''VTI'', currentAllocation = 50, targetAllocation = 38,
          deviation = 12, status = needs_sell, currentValue = 300, targetValue = 380,
          adjustmentNeeded = 80, mappedTargetSymbol = None, assetType = ''Stock''\<rparr>,
         \<lparr>AssetStatus.symbol = ''XYZ'', currentAllocation = 10, targetAllocation = 0,
          deviation = 10, status = needs_sell, currentValue = 100, targetValue = 0,
          adjustmentNeeded = - 100, mappedTargetSymbol = None, assetType = ''Other''\<rparr>],
      totalValue = 1000, totalBuy = 80, totalSell = 100, netCashNeeded = - 20\<rparr>"

definition example_category_target :: "string \<Rightarrow> real \<Rightarrow> TargetAllocation" where
  "example_category_target ty p =
     \<lparr>TargetAllocation.id' = 2, asset_type = ty, asset_category = None, symbol = None,
      alternative_tickers = [], isin = None, target_percentage = p, bucket = None\<rparr>"

definition example_csv :: string where
  "example_csv =
     ''Asset Type,Asset Category,Main Ticker,%'' @ [CHR 0x0A] @
     ''Stock,US Stock market,VTI,0.05'' @ [CHR 0x0A] @
     '',US Stock market,XXX,10'' @ [CHR 0x0A] @
     ''Bond,,BND,abc'' @ [CHR 0x0A] @
     ''Bond,,AGG,0%'' @ [CHR 0x0A] @
     ''Cash,,SGOV,95%'' @ [CHR 0x0A]"

definition example_csv_header :: CsvHeaderMap where
  "example_csv_header =
     \<lparr>CsvHeaderMap.assetType = Some 0, assetCategory = Some 1, instrument = None, isin = None,
      mainTicker = Some 2, percentage = Some 3, otherTickers = None\<rparr>"

definition example_sheet :: "cell list list" where
  "example_sheet =
     [[CStr ''Asset Type'', CStr ''Asset Category'', CStr ''Ticker'', CStr ''% target holding''],
      [CStr ''Shares'', CStr ''US Stock market'', CStr ''VTI'', CNum ''0.05''],
      [CStr '''', CStr ''US Stock market'', CStr ''XXX'', CNum ''10''],
      [CStr ''Bond'', CStr '''', CStr ''BND'', CNum ''150''],
      [CStr ''Bond'', CStr '''', CStr ''AGG'', CNum ''0''],
      [CStr ''Cash'', CStr '''', CStr ''SGOV'', CStr ''95%'']]"

definition example_sheet_header :: ExcelHeaderMap where
  "example_sheet_header =
     \<lparr>ExcelHeaderMap.assetType = 0, assetCategory = Some 1, instrument = None, isin = None,
      ticker = Some 2, percentage = 3\<rparr>"


text \<open>
  A statement text whose Open Positions section, in the vertical layout, holds a long
  position followed by a short one (a negative quantity).
\<close>

definition example_short_statement :: string where
  "example_short_statement =
     concat (map (\<lambda>l. l @ [CHR 0x0A])
       [''Open Positions'', ''Symbol'', ''Quantity'', ''Mult'', ''Cost Price'', ''Cost Basis'',
        ''Close Price'', ''Value'', ''Unrealized P/L'', ''Code'',
        ''IWDA'', ''100'', ''1'', ''76.61'', ''7,661.03'', ''105.5250'', ''10,552.50'',
        ''2,891.47'', ''SY'',
        ''TSLA'', ''-10'', ''1'', ''250.00'', ''-2,500.00'', ''240.00'', ''-2,400.00'',
        ''100.00'', ''SY''])"

definition example_short_lines :: "string list" where
  "example_short_lines =
     [''Open Positions'', ''Symbol'', ''Quantity'', ''Mult'', ''Cost Price'', ''Cost Basis'',
      ''Close Price'', ''Value'', ''Unrealized P/L'', ''Code'',
      ''IWDA'', ''100'', ''1'', ''76.61'', ''7,661.03'', ''105.5250'', ''10,552.50'',
      ''2,891.47'', ''SY'',
      ''TSLA'', ''-10'', ''1'', ''250.00'', ''-2,500.00'', ''240.00'', ''-2,400.00'',
      ''100.00'', ''SY'', '''']"

definition example_iwda :: ParsedHolding where
  "example_iwda =
     \<lparr>ParsedHolding.symbol = ''IWDA'', quantity = Finite 100, price = Finite (4221 / 40),
      value = Finite (21105 / 2), currency = None, assetType = None\<rparr>"

section \<open>Properties of the rebalancing engine\<close>

lemma fold_process_entry_assets:
  "acc_assets (fold (process_entry maps tv tol) es s) =
     acc_assets s @ map (asset_of maps tv tol) es"
  by (induction es arbitrary: s)
     (auto simp: process_entry_def Let_def split: option.splits)

lemma fold_process_entry_actions:
  "acc_actions (fold (process_entry maps tv tol) es s) =
     acc_actions s @ List.map_filter (action_of maps tv tol) es"
  by (induction es arbitrary: s)
     (auto simp: process_entry_def Let_def List.map_filter_simps split: option.splits)

lemma action_of_buy_pos:
  "action_of maps tv tol entry = Some a \<Longrightarrow> action a = BUY \<Longrightarrow> 0 < amount a"
  by (auto simp: action_of_def Let_def split: prod.splits if_splits)

lemma action_of_kind:
  "action_of maps tv tol entry = Some a \<Longrightarrow> action a = BUY \<or> action a = SELL"
  by (auto simp: action_of_def Let_def split: prod.splits if_splits)

lemma action_of_sell_amount:
  "action_of maps tv tol entry = Some a \<Longrightarrow> action a \<noteq> BUY \<Longrightarrow>
     amount a = value_usd (holding (snd entry)) \<or> 0 \<le> amount a"
  by (auto simp: action_of_def Let_def split: prod.splits if_splits)

lemma fold_process_entry_buy:
  "acc_buy s \<ge> 0 \<Longrightarrow> acc_buy (fold (process_entry maps tv tol) es s) \<ge> 0"
proof (induction es arbitrary: s)
  case Nil then show ?case by simp
next
  case (Cons e es)
  have "acc_buy (process_entry maps tv tol e s) \<ge> 0"
    using Cons.prems action_of_buy_pos[of maps tv tol e]
    by (auto simp: process_entry_def Let_def split: option.splits)
  then show ?case using Cons.IH by simp
qed

lemma fold_process_entry_sell:
  "acc_sell s \<ge> 0 \<Longrightarrow> \<forall>e \<in> set es. 0 \<le> value_usd (holding (snd e)) \<Longrightarrow>
   acc_sell (fold (process_entry maps tv tol) es s) \<ge> 0"
proof (induction es arbitrary: s)
  case Nil then show ?case by simp
next
  case (Cons e es)
  have "acc_sell (process_entry maps tv tol e s) \<ge> 0"
    using Cons.prems action_of_sell_amount[of maps tv tol e]
    by (fastforce simp: process_entry_def Let_def split: option.splits)
  then show ?case using Cons.IH Cons.prems by simp
qed

lemma add_to_existing_static:
  "map (\<lambda>x. (fst x, holding (snd x), mappedSymbol (snd x))) (add_to_existing k a xs) =
   map (\<lambda>x. (fst x, holding (snd x), mappedSymbol (snd x))) xs"
  by (induction xs) auto

lemma add_to_existing_holdings:
  "(holding \<circ> snd) ` set (add_to_existing k a xs) = (holding \<circ> snd) ` set xs"
proof -
  have "map (holding \<circ> snd) (add_to_existing k a xs) = map (holding \<circ> snd) xs"
    using arg_cong[OF add_to_existing_static[of k a xs], of "map (\<lambda>t. fst (snd t))"]
    by (simp add: comp_def)
  then have "set (map (holding \<circ> snd) (add_to_existing k a xs)) = set (map (holding \<circ> snd) xs)"
    by simp
  then show ?thesis by simp
qed

lemma add_to_existing_keys: "map fst (add_to_existing k a xs) = map fst xs"
  by (induction xs) auto

lemma allocate_holdings:
  "(holding \<circ> snd) ` set (allocate tv sm h acc) \<subseteq> insert h ((holding \<circ> snd) ` set acc)"
  "is_cash h \<Longrightarrow> allocate tv sm h acc = acc"
  using add_to_existing_holdings[of _ _ acc]
  by (auto simp: allocate_def Let_def split: option.splits)

lemma ticker_allocations_holdings_gen:
  "(holding \<circ> snd) ` set (fold (allocate tv sm) hs acc)
     \<subseteq> {h \<in> set hs. \<not> is_cash h} \<union> (holding \<circ> snd) ` set acc"
proof (induction hs arbitrary: acc)
  case Nil then show ?case by simp
next
  case (Cons h hs)
  show ?case
  proof (cases "is_cash h")
    case True
    then show ?thesis using Cons.IH[of acc] by (auto simp: allocate_holdings(2))
  next
    case False
    then show ?thesis using Cons.IH[of "allocate tv sm h acc"] allocate_holdings(1)[of tv sm h acc]
      by auto
  qed
qed

lemma ticker_allocations_holdings:
  "e \<in> set (ticker_allocations hs tv sm) \<Longrightarrow> holding (snd e) \<in> set hs \<and> \<not> is_cash (holding (snd e))"
  using ticker_allocations_holdings_gen[of tv sm hs "[]"]
  by (auto simp: ticker_allocations_def)


lemma add_to_existing_list_all:
  "list_all (\<lambda>x. or_else (mappedSymbol (snd x)) (fst x) = fst x) xs \<Longrightarrow>
   list_all (\<lambda>x. or_else (mappedSymbol (snd x)) (fst x) = fst x) (add_to_existing k a xs)"
  by (induction xs) auto

lemma add_to_existing_target_symbol:
  "\<forall>x \<in> set xs. or_else (mappedSymbol (snd x)) (fst x) = fst x \<Longrightarrow>
   \<forall>x \<in> set (add_to_existing k a xs). or_else (mappedSymbol (snd x)) (fst x) = fst x"
  using add_to_existing_list_all[of xs k a] by (simp add: list_all_iff)

lemma allocate_target_symbol:
  assumes "\<forall>x \<in> set acc. or_else (mappedSymbol (snd x)) (fst x) = fst x"
  shows "\<forall>x \<in> set (allocate tv sm h acc). or_else (mappedSymbol (snd x)) (fst x) = fst x"
  using assms add_to_existing_target_symbol[OF assms]
  by (auto simp: allocate_def Let_def or_else_def or_undefined_def truthy_def
           split: option.splits)

lemma fold_allocate_target_symbol:
  "\<forall>x \<in> set acc. or_else (mappedSymbol (snd x)) (fst x) = fst x \<Longrightarrow>
   \<forall>x \<in> set (fold (allocate tv sm) hs acc). or_else (mappedSymbol (snd x)) (fst x) = fst x"
proof (induction hs arbitrary: acc)
  case Nil then show ?case by simp
next
  case (Cons h hs)
  show ?case using Cons.IH[OF allocate_target_symbol[OF Cons.prems]] by simp
qed

lemma ticker_allocations_target_symbol:
  "(k, e) \<in> set (ticker_allocations hs tv sm) \<Longrightarrow> or_else (mappedSymbol e) k = k"
  using fold_allocate_target_symbol[of "[]" tv sm hs]
  by (fastforce simp: ticker_allocations_def)

lemma set_map_filter: "set (List.map_filter f xs) = {a. \<exists>e \<in> set xs. f e = Some a}"
  by (induction xs) (auto simp: List.map_filter_simps split: option.splits)

lemma calculateRebalancing_plan:
  assumes "calculateRebalancing hs ts tv tol sm = Inr plan"
  shows "plan = \<lparr>actions = sort_actions (acc_actions (run_entries ts hs tv tol sm)),
                allAssets = sort_assets (acc_assets (run_entries ts hs tv tol sm)),
                totalValue = tv,
                totalBuy = acc_buy (run_entries ts hs tv tol sm),
                totalSell = acc_sell (run_entries ts hs tv tol sm),
                netCashNeeded = acc_buy (run_entries ts hs tv tol sm)
                                  - acc_sell (run_entries ts hs tv tol sm)\<rparr>"
  using assms unfolding calculateRebalancing_def run_entries_def Let_def
  by (simp split: if_splits)

lemma calculateRebalancing_Inr:
  assumes "calculateRebalancing hs ts tv tol sm = Inr plan"
  shows "set (allAssets plan) = asset_of (target_maps ts) tv tol ` set (ticker_allocations hs tv sm)"
    and "set (actions plan) = {a. \<exists>e \<in> set (ticker_allocations hs tv sm). action_of (target_maps ts) tv tol e = Some a}"
    and "totalBuy plan = acc_buy (run_entries ts hs tv tol sm)"
    and "totalSell plan = acc_sell (run_entries ts hs tv tol sm)"
    and "netCashNeeded plan = totalBuy plan - totalSell plan"
    and "totalValue plan = tv"
proof -
  note P = calculateRebalancing_plan[OF assms]
  show "set (allAssets plan) = asset_of (target_maps ts) tv tol ` set (ticker_allocations hs tv sm)"
    by (subst P) (simp add: sort_assets_def run_entries_def fold_process_entry_assets)
  show "set (actions plan) = {a. \<exists>e \<in> set (ticker_allocations hs tv sm). action_of (target_maps ts) tv tol e = Some a}"
    by (subst P) (simp add: sort_actions_def run_entries_def fold_process_entry_actions set_map_filter)
  show "totalBuy plan = acc_buy (run_entries ts hs tv tol sm)" by (subst P) simp
  show "totalSell plan = acc_sell (run_entries ts hs tv tol sm)" by (subst P) simp
  show "netCashNeeded plan = totalBuy plan - totalSell plan"
    using arg_cong[OF P, of netCashNeeded] arg_cong[OF P, of totalBuy]
      arg_cong[OF P, of totalSell] by simp
  show "totalValue plan = tv" by (subst P) simp
qed

lemma resolve_target_none:
  assumes "or_else (mappedSymbol e) k = k"
    and "fst maps k = None"
    and "fst maps (toUpperCase (Holding.symbol (holding e))) = None"
    and "snd maps (category_key (Holding.asset_type (holding e)) (Holding.asset_category (holding e))) = None"
  shows "resolve_target maps (k, e) = (0, False)"
  using assms by (simp add: resolve_target_def Let_def)

lemma map_of_add_to_existing:
  "map_of (add_to_existing k a xs) k' =
     (if k' = k then map_option (\<lambda>e. e\<lparr>allocation := allocation e + a\<rparr>) (map_of xs k)
      else map_of xs k')"
  by (induction xs) auto

lemma allocate_map_of:
  "map_of (allocate tv sm h acc) k =
     (if is_cash h \<or> effective_symbol sm h \<noteq> k then map_of acc k
      else (case map_of acc k of
              Some e \<Rightarrow> Some (e\<lparr>allocation := allocation e + percent_of tv h\<rparr>)
            | None \<Rightarrow> Some \<lparr>holding = h, allocation = percent_of tv h,
                             mappedSymbol = or_undefined (sm (toUpperCase (Holding.symbol h)))\<rparr>))"
  by (auto simp: allocate_def Let_def effective_symbol_def percent_of_def
        map_of_add_to_existing map_add_def split: option.splits)

lemma fold_allocate_map_of:
  "map_of (fold (allocate tv sm) hs acc) k =
     (case map_of acc k of
        Some e \<Rightarrow> Some (e\<lparr>allocation := allocation e
                            + sum_list (map (percent_of tv) (contributing hs sm k))\<rparr>)
      | None \<Rightarrow>
         (case contributing hs sm k of
            [] \<Rightarrow> None
          | h # rest \<Rightarrow> Some \<lparr>holding = h,
                 allocation = sum_list (map (percent_of tv) (h # rest)),
                 mappedSymbol = or_undefined (sm (toUpperCase (Holding.symbol h)))\<rparr>))"
proof (induction hs arbitrary: acc)
  case Nil
  then show ?case by (simp add: contributing_def split: option.splits)
next
  case (Cons h hs)
  show ?case
  proof (cases "is_cash h \<or> effective_symbol sm h \<noteq> k")
    case True
    then have c: "contributing (h # hs) sm k = contributing hs sm k"
      by (auto simp: contributing_def)
    show ?thesis
      unfolding c using True by (simp add: Cons.IH allocate_map_of)
  next
    case False
    then have c: "contributing (h # hs) sm k = h # contributing hs sm k"
      by (auto simp: contributing_def)
    show ?thesis
      unfolding c using False
      by (simp add: Cons.IH allocate_map_of add.assoc split: option.splits)
  qed
qed

lemma ticker_allocations_first_holding:
  assumes "contributing hs sm k = h # rest"
  shows "(k, \<lparr>holding = h, allocation = sum_list (map (percent_of tv) (h # rest)),
               mappedSymbol = or_undefined (sm (toUpperCase (Holding.symbol h)))\<rparr>)
           \<in> set (ticker_allocations hs tv sm)"
proof -
  have "map_of (ticker_allocations hs tv sm) k =
          Some \<lparr>holding = h, allocation = sum_list (map (percent_of tv) (h # rest)),
                mappedSymbol = or_undefined (sm (toUpperCase (Holding.symbol h)))\<rparr>"
    unfolding ticker_allocations_def fold_allocate_map_of using assms by simp
  then show ?thesis by (rule map_of_SomeD)
qed

lemma action_of_amounts:
  assumes "action_of maps tv tol (k, e) = Some x"
  shows "quantity x = js_div (amount x) (price (holding e))"
    and "action x = BUY \<Longrightarrow>
           amount x = RebalancingAction.targetAllocation x / 100 * tv - value_usd (holding e)"
    and "action x \<noteq> BUY \<Longrightarrow> action x = SELL \<and>
           (amount x = value_usd (holding e) \<or>
            amount x = \<bar>RebalancingAction.targetAllocation x / 100 * tv - value_usd (holding e)\<bar>)"
    and "RebalancingAction.currentAllocation x = allocation e"
  using assms by (auto simp: action_of_def Let_def split: prod.splits if_splits)

lemma asset_of_values:
  "AssetStatus.currentAllocation (asset_of maps tv tol (k, e)) = allocation e"
  "currentValue (asset_of maps tv tol (k, e)) = value_usd (holding e)"
  "adjustmentNeeded (asset_of maps tv tol (k, e)) =
     targetValue (asset_of maps tv tol (k, e)) - value_usd (holding e)"
  "targetValue (asset_of maps tv tol (k, e)) =
     AssetStatus.targetAllocation (asset_of maps tv tol (k, e)) / 100 * tv"
  "AssetStatus.symbol (asset_of maps tv tol (k, e)) = Holding.symbol (holding e)"
  by (simp_all add: asset_of_def Let_def split: prod.splits)

lemma example_plan_computed:
  "calculateRebalancing example_holdings example_targets 1000 0.01 example_mappings
     = Inr example_plan"
  by code_simp

lemma example_xyz_entry:
  "(''XYZ'', \<lparr>holding = example_holding ''XYZ'' ''Other'' 5 100, allocation = 10,
              mappedSymbol = None\<rparr>)
     \<in> set (ticker_allocations example_holdings 1000 example_mappings)"
  by code_simp

lemma example_xyz_no_target:
  "fst (target_maps example_targets) ''XYZ'' = None"
  "snd (target_maps example_targets) (category_key ''Other'' None) = None"
  by code_simp+

lemma example_contributing:
  "contributing example_holdings example_mappings ''VTI'' =
     [example_holding ''VTI'' ''Stock'' 10 300, example_holding ''vtiq'' ''Stock'' 20 200]"
  by code_simp

lemma fold_allocate_skips_cash:
  "fold (allocate tv sm) hs acc = fold (allocate tv sm) (filter (\<lambda>h. \<not> is_cash h) hs) acc"
  by (induction hs arbitrary: acc) (simp_all add: allocate_holdings(2))

lemma list_ex_filter_not_cash:
  "list_ex (\<lambda>h. \<not> is_cash h) (filter (\<lambda>h. \<not> is_cash h) hs) = list_ex (\<lambda>h. \<not> is_cash h) hs"
  by (induction hs) auto

lemma calculateRebalancing_without_cash:
  "calculateRebalancing hs ts tv tol sm =
   calculateRebalancing (filter (\<lambda>h. \<not> is_cash h) hs) ts tv tol sm"
  unfolding calculateRebalancing_def ticker_allocations_def list_ex_filter_not_cash
  using fold_allocate_skips_cash[of tv sm hs "[]"] by simp

lemma fold_sum_value:
  "fold (\<lambda>h acc. acc + value_usd h) hs a = a + sum_list (map value_usd hs)"
  by (induction hs arbitrary: a) simp_all

lemma route_total_split:
  "route_total hs = route_total (filter (\<lambda>h. \<not> is_cash h) hs) + route_total (filter is_cash hs)"
  unfolding route_total_def fold_sum_value
  by (induction hs) simp_all

lemma assets_not_cash:
  assumes "calculateRebalancing hs ts tv tol sm = Inr plan"
    and "a \<in> set (allAssets plan)"
  shows "toUpperCase (AssetStatus.symbol a) \<noteq> ''CASH''"
proof -
  from assms obtain e where e: "e \<in> set (ticker_allocations hs tv sm)"
    and a: "a = asset_of (target_maps ts) tv tol e"
    unfolding calculateRebalancing_Inr(1)[OF assms(1)] by blast
  have "AssetStatus.symbol a = Holding.symbol (holding (snd e))"
    unfolding a using asset_of_values(5)[of "target_maps ts" tv tol "fst e" "snd e"] by simp
  then show ?thesis using ticker_allocations_holdings[OF e] by (simp add: is_cash_def)
qed

lemma js_add_to_existing_holdings:
  "map (\<lambda>x. js_holding (snd x)) (js_add_to_existing k a xs) = map (\<lambda>x. js_holding (snd x)) xs"
  by (induction xs) auto

lemma js_allocate_holdings:
  "(\<lambda>x. js_holding (snd x)) ` set (js_allocate tv sm h acc)
     \<subseteq> (if is_cash h then {} else {h}) \<union> (\<lambda>x. js_holding (snd x)) ` set acc"
proof -
  have "set (map (\<lambda>x. js_holding (snd x)) (js_add_to_existing k a acc)) =
        set (map (\<lambda>x. js_holding (snd x)) acc)" for k a
    by (simp only: js_add_to_existing_holdings)
  then have "(\<lambda>x. js_holding (snd x)) ` set (js_add_to_existing k a acc) =
        (\<lambda>x. js_holding (snd x)) ` set acc" for k a by simp
  then show ?thesis
    by (auto simp: js_allocate_def Let_def split: option.splits)
qed

lemma js_ticker_allocations_holdings_gen:
  "(\<lambda>x. js_holding (snd x)) ` set (fold (js_allocate tv sm) hs acc)
     \<subseteq> {h \<in> set hs. \<not> is_cash h} \<union> (\<lambda>x. js_holding (snd x)) ` set acc"
proof (induction hs arbitrary: acc)
  case Nil then show ?case by simp
next
  case (Cons h hs)
  show ?case
    using Cons.IH[of "js_allocate tv sm h acc"] js_allocate_holdings[of tv sm h acc]
    by (auto split: if_splits)
qed

lemma js_ticker_allocations_holdings:
  "e \<in> set (js_ticker_allocations hs tv sm) \<Longrightarrow>
     js_holding (snd e) \<in> set hs \<and> \<not> is_cash (js_holding (snd e))"
  using js_ticker_allocations_holdings_gen[of tv sm hs "[]"]
  by (auto simp: js_ticker_allocations_def)

lemma totals_entry_buy:
  "0 \<le> fst t \<Longrightarrow> 0 \<le> fst (totals_entry maps tv tol e t)"
  by (auto simp: totals_entry_def Let_def split: prod.splits)

lemma totals_entry_sell:
  "0 \<le> snd t \<Longrightarrow> 0 \<le> value_usd (js_holding (snd e)) \<Longrightarrow>
   0 \<le> snd (totals_entry maps tv tol e t)"
  by (auto simp: totals_entry_def Let_def split: prod.splits)

lemma fold_totals_entry_buy:
  "0 \<le> fst t \<Longrightarrow> 0 \<le> fst (fold (totals_entry maps tv tol) es t)"
  by (induction es arbitrary: t) (simp_all add: totals_entry_buy)

lemma fold_totals_entry_sell:
  "0 \<le> snd t \<Longrightarrow> \<forall>e \<in> set es. 0 \<le> value_usd (js_holding (snd e)) \<Longrightarrow>
   0 \<le> snd (fold (totals_entry maps tv tol) es t)"
  by (induction es arbitrary: t) (simp_all add: totals_entry_sell)

lemma map_of_finite_entry:
  "map_of (map finite_entry acc) k = None \<longleftrightarrow> map_of acc k = None"
  by (induction acc) (auto simp: finite_entry_def)

lemma js_add_to_existing_finite:
  "js_add_to_existing k (Finite a) (map finite_entry acc) =
     map finite_entry (add_to_existing k a acc)"
  by (induction acc) (auto simp: finite_entry_def)

lemma js_allocate_finite:
  assumes "tv \<noteq> 0 \<or> is_cash h"
  shows "js_allocate tv sm h (map finite_entry acc) = map finite_entry (allocate tv sm h acc)"
proof (cases "is_cash h")
  case True
  then show ?thesis by (simp add: js_allocate_def allocate_def)
next
  case False
  with assms have tv: "tv \<noteq> 0" by simp
  let ?k = "or_else (sm (toUpperCase (Holding.symbol h))) (toUpperCase (Holding.symbol h))"
  show ?thesis
  proof (cases "map_of acc ?k")
    case None
    then have "map_of (map finite_entry acc) ?k = None" by (simp add: map_of_finite_entry)
    then show ?thesis using None False tv
      by (simp add: js_allocate_def allocate_def Let_def js_percent_def finite_entry_def)
  next
    case (Some e)
    then have "map_of (map finite_entry acc) ?k \<noteq> None" by (simp add: map_of_finite_entry)
    then obtain e' where "map_of (map finite_entry acc) ?k = Some e'" by blast
    then show ?thesis using Some False tv
      by (simp add: js_allocate_def allocate_def Let_def js_percent_def
            js_add_to_existing_finite)
  qed
qed

lemma fold_js_allocate_finite:
  "tv \<noteq> 0 \<or> (\<forall>h \<in> set hs. is_cash h) \<Longrightarrow>
   fold (js_allocate tv sm) hs (map finite_entry acc) =
     map finite_entry (fold (allocate tv sm) hs acc)"
proof (induction hs arbitrary: acc)
  case Nil then show ?case by simp
next
  case (Cons h hs)
  have "js_allocate tv sm h (map finite_entry acc) = map finite_entry (allocate tv sm h acc)"
    using Cons.prems by (intro js_allocate_finite) auto
  then show ?case using Cons.IH[of "allocate tv sm h acc"] Cons.prems by auto
qed

lemma js_resolve_target_finite:
  "js_resolve_target maps (finite_entry e) = resolve_target maps e"
  by (simp add: js_resolve_target_def resolve_target_def finite_entry_def Let_def
        split: option.splits)

lemma totals_entry_finite:
  "totals_entry maps tv tol (finite_entry e) (acc_buy s, acc_sell s) =
     (acc_buy (process_entry maps tv tol e s), acc_sell (process_entry maps tv tol e s))"
  unfolding totals_entry_def js_resolve_target_finite process_entry_def action_of_def
  by (cases "resolve_target maps e")
     (simp add: Let_def finite_entry_def js_minus_def js_positive_def js_abs_exceeds_def)

lemma fold_totals_entry_finite:
  "fold (totals_entry maps tv tol) (map finite_entry es) (acc_buy s, acc_sell s) =
     (acc_buy (fold (process_entry maps tv tol) es s),
      acc_sell (fold (process_entry maps tv tol) es s))"
  by (induction es arbitrary: s) (simp_all add: totals_entry_finite)

lemma calculateRebalancing_totals_plan:
  assumes "calculateRebalancing hs ts tv tol sm = Inr plan"
  shows "calculateRebalancing_totals hs ts tv tol sm =
           (totalBuy plan, totalSell plan, netCashNeeded plan)"
proof -
  from assms have d: "tv \<noteq> 0 \<or> (\<forall>h \<in> set hs. is_cash h)"
    by (auto simp: calculateRebalancing_def list_ex_iff split: if_splits)
  have a: "js_ticker_allocations hs tv sm = map finite_entry (ticker_allocations hs tv sm)"
    using fold_js_allocate_finite[OF d, of sm "[]"]
    by (simp add: js_ticker_allocations_def ticker_allocations_def)
  note I = calculateRebalancing_Inr[OF assms]
  have "fold (totals_entry (target_maps ts) tv tol) (js_ticker_allocations hs tv sm) (0, 0) =
        (acc_buy (run_entries ts hs tv tol sm), acc_sell (run_entries ts hs tv tol sm))"
    unfolding a run_entries_def
    using fold_totals_entry_finite[of "target_maps ts" tv tol "ticker_allocations hs tv sm"
        "\<lparr>acc_actions = [], acc_assets = [], acc_buy = 0, acc_sell = 0\<rparr>"]
    by simp
  then show ?thesis
    using I(3,4,5) by (simp add: calculateRebalancing_totals_def Let_def)
qed

lemma example_totals_at_zero:
  "calculateRebalancing_totals [example_holding ''XYZ'' ''Other'' 5 100] example_targets 0 0.01
     Map.empty = (0, 100, - 100)"
  "calculateRebalancing_totals [example_holding ''VTI'' ''Stock'' 10 300] example_targets 0 0.01
     Map.empty = (0, 300, - 300)"
  by code_simp+

section \<open>Properties of the holding matcher\<close>

lemma map_alt_tickers_dom:
  "(map_alt_tickers as t m k = None) =
     (m k = None \<and> \<not> list_ex (\<lambda>a. a \<noteq> [] \<and> toUpperCase a = k) as)"
  by (induction as arbitrary: m) auto

lemma index_target_symbol_dom:
  "(targetsBySymbol (index_target t idx) k = None) =
     (targetsBySymbol idx k = None \<and>
      \<not> (truthy (TargetAllocation.symbol t) \<and> toUpperCase (the (TargetAllocation.symbol t)) = k) \<and>
      \<not> list_ex (\<lambda>a. a \<noteq> [] \<and> toUpperCase a = k) (alternative_tickers t))"
  by (auto simp: index_target_def Let_def map_alt_tickers_dom)

lemma index_target_isin_dom:
  "(targetsByIsin (index_target t idx) k = None) =
     (targetsByIsin idx k = None \<and>
      \<not> (truthy (TargetAllocation.isin t) \<and> toUpperCase (the (TargetAllocation.isin t)) = k))"
  by (auto simp: index_target_def Let_def)

lemma index_target_category_dom:
  "(\<exists>t' rest. targetsByCategory (index_target t idx) k = Some (t' # rest)) =
     ((\<exists>t' rest. targetsByCategory idx k = Some (t' # rest)) \<or>
      (\<not> truthy (TargetAllocation.symbol t) \<and> alternative_tickers t = [] \<and>
       category_key (TargetAllocation.asset_type t) (TargetAllocation.asset_category t) = k))"
  by (cases "targetsByCategory idx k"; cases "the (targetsByCategory idx k)")
     (auto simp: index_target_def Let_def split: option.splits)

lemma fold_index_symbol_dom:
  "(targetsBySymbol (fold index_target ts idx) k = None) =
     (targetsBySymbol idx k = None \<and>
      \<not> list_ex (\<lambda>t. (truthy (TargetAllocation.symbol t) \<and>
                     toUpperCase (the (TargetAllocation.symbol t)) = k) \<or>
                    list_ex (\<lambda>a. a \<noteq> [] \<and> toUpperCase a = k) (alternative_tickers t)) ts)"
proof (induction ts arbitrary: idx)
  case Nil then show ?case by simp
next
  case (Cons t ts)
  show ?case unfolding fold_Cons comp_def Cons.IH index_target_symbol_dom by auto
qed

lemma fold_index_isin_dom:
  "(targetsByIsin (fold index_target ts idx) k = None) =
     (targetsByIsin idx k = None \<and>
      \<not> list_ex (\<lambda>t. truthy (TargetAllocation.isin t) \<and>
                    toUpperCase (the (TargetAllocation.isin t)) = k) ts)"
proof (induction ts arbitrary: idx)
  case Nil then show ?case by simp
next
  case (Cons t ts)
  show ?case unfolding fold_Cons comp_def Cons.IH index_target_isin_dom by auto
qed

lemma fold_index_category_dom:
  "(\<exists>t' rest. targetsByCategory (fold index_target ts idx) k = Some (t' # rest)) =
     ((\<exists>t' rest. targetsByCategory idx k = Some (t' # rest)) \<or>
      list_ex (\<lambda>t. \<not> truthy (TargetAllocation.symbol t) \<and> alternative_tickers t = [] \<and>
         category_key (TargetAllocation.asset_type t) (TargetAllocation.asset_category t) = k) ts)"
proof (induction ts arbitrary: idx)
  case Nil then show ?case by simp
next
  case (Cons t ts)
  show ?case unfolding fold_Cons comp_def Cons.IH index_target_category_dom by auto
qed

lemma symbol_lookup_iff:
  "has_symbol_match ts h =
     (Holding.symbol h \<noteq> [] \<and>
      targetsBySymbol (target_index ts) (toUpperCase (Holding.symbol h)) \<noteq> None)"
  unfolding has_symbol_match_def target_index_def fold_index_symbol_dom by simp

lemma isin_lookup_iff:
  "has_isin_match ts h =
     (truthy (Holding.isin h) \<and>
      targetsByIsin (target_index ts) (toUpperCase (the (Holding.isin h))) \<noteq> None)"
  unfolding has_isin_match_def target_index_def fold_index_isin_dom by simp

lemma category_lookup_iff:
  "has_category_match ts h =
     (\<exists>t' rest. targetsByCategory (target_index ts)
         (category_key (Holding.asset_type h) (Holding.asset_category h)) = Some (t' # rest))"
  unfolding has_category_match_def target_index_def fold_index_category_dom by simp

lemma find_match_cases:
  "find_match (target_index ts) h =
     (if has_symbol_match ts h
      then Some (the (targetsBySymbol (target_index ts) (toUpperCase (Holding.symbol h))), exact_symbol)
      else if has_isin_match ts h
      then Some (the (targetsByIsin (target_index ts) (toUpperCase (the (Holding.isin h)))), exact_isin)
      else if has_category_match ts h
      then Some (hd (the (targetsByCategory (target_index ts)
                   (category_key (Holding.asset_type h) (Holding.asset_category h)))), category)
      else None)"
  unfolding symbol_lookup_iff isin_lookup_iff category_lookup_iff find_match_def Let_def
  by (auto split: option.splits list.splits)

lemma fold_match_step_matched:
  "matched (fold (match_step idx ts) hs r) =
     matched r @ List.map_filter
        (\<lambda>h. map_option (\<lambda>p. matched_holding h (fst p) (snd p)) (find_match idx h)) hs"
  by (induction hs arbitrary: r)
     (auto simp: match_step_def List.map_filter_simps split: option.splits)

section \<open>Properties of the target-file parsers\<close>

lemma csv_rows_outcomes:
  "csv_rows hm i ls acc =
     (fst acc @ targets_of (map (\<lambda>(k, l). csv_row hm k l) (List.enumerate i ls)),
      snd acc @ errors_of (map (\<lambda>(k, l). csv_row hm k l) (List.enumerate i ls)))"
  by (induction ls arbitrary: i acc)
     (auto simp: targets_of_def errors_of_def split: row_outcome.splits)

lemma excel_rows_outcomes:
  "list_all (\<lambda>(k, r). \<forall>msg. excel_row hm k r \<noteq> RowThrows msg) (List.enumerate i rs) \<Longrightarrow>
   excel_rows hm i rs s =
     Inr (s\<lparr>acc_targets := acc_targets s @ targets_of (map (\<lambda>(k, r). excel_row hm k r) (List.enumerate i rs)),
           acc_warnings := acc_warnings s @ warnings_of (map (\<lambda>(k, r). excel_row hm k r) (List.enumerate i rs)),
           acc_errors := acc_errors s @ errors_of (map (\<lambda>(k, r). excel_row hm k r) (List.enumerate i rs))\<rparr>)"
  by (induction rs arbitrary: i s)
     (auto simp: targets_of_def errors_of_def warnings_of_def split: row_outcome.splits)

lemma scale_fraction_Finite:
  "scale_fraction (Finite x) = Finite (if 0 < x \<and> x < 1 then x * 100 else x)"
  by (simp add: scale_fraction_def)

lemma csv_row_cases:
  assumes "trim line \<noteq> []"
  shows "csv_row hm i line =
     (if csv_asset_type hm line = [] then RowError (missing_asset_type_error i)
      else if invalid_percentage (scale_fraction (csv_parsed_percentage hm line))
      then RowError (invalid_percentage_error i
              (case at_index (parseCsvLine line) (the (CsvHeaderMap.percentage hm)) of
                 None \<Rightarrow> ''undefined'' | Some s \<Rightarrow> s))
      else if scale_fraction (csv_parsed_percentage hm line) = Finite 0 then RowSkipped
      else RowTarget
             \<lparr>CsvTargetRow.assetType = normalizeAssetType (csv_asset_type hm line),
              assetCategory = csv_optional (parseCsvLine line) (CsvHeaderMap.assetCategory hm),
              instrument = csv_optional (parseCsvLine line) (CsvHeaderMap.instrument hm),
              isin = csv_optional (parseCsvLine line) (CsvHeaderMap.isin hm),
              mainTicker = csv_optional (parseCsvLine line) (CsvHeaderMap.mainTicker hm),
              otherTickers =
                (if csv_other_tickers (parseCsvLine line) (CsvHeaderMap.otherTickers hm) \<noteq> []
                 then Some (csv_other_tickers (parseCsvLine line) (CsvHeaderMap.otherTickers hm))
                 else None),
              targetPercentage = finite_value (scale_fraction (csv_parsed_percentage hm line))\<rparr> [])"
proof -
  have idem: "or_undefined (csv_optional r k) = csv_optional r k" for r k
    by (simp add: csv_optional_def or_undefined_def truthy_def split: option.splits)
  show ?thesis
    using assms
    by (simp add: csv_row_def Let_def csv_asset_type_def csv_parsed_percentage_def
          csv_percentage_def idem)
qed


lemma fold_sum_list: "fold (\<lambda>t s. s + f t) xs (a::real) = a + sum_list (map f xs)"
  by (induction xs arbitrary: a) simp_all

lemma parseTargetCsv_result:
  assumes "csv_header csvText = Some hm"
  shows "parseTargetCsv csvText =
     \<lparr>ParsedCsvTargetsResult.targets =
        targets_of (map (\<lambda>(i, l). csv_row hm i l) (csv_data_rows csvText)),
      warnings = total_warning (sum_list (map CsvTargetRow.targetPercentage
        (targets_of (map (\<lambda>(i, l). csv_row hm i l) (csv_data_rows csvText))))),
      errors = errors_of (map (\<lambda>(i, l). csv_row hm i l) (csv_data_rows csvText))\<rparr>"
  using assms
  by (auto simp: csv_header_def parseTargetCsv_def Let_def csv_rows_outcomes csv_data_rows_def
        fold_sum_list split: if_splits)

lemma trim_idem: "trim (trim s) = trim s"
proof -
  define u where "u = dropWhile is_space s"
  define w where "w = dropWhile is_space (rev u)"
  have v: "trim s = rev w" by (simp add: trim_def u_def w_def)
  have "rev u = takeWhile is_space (rev u) @ w" by (simp add: w_def)
  then have "u = rev w @ rev (takeWhile is_space (rev u))"
    by (metis rev_append rev_rev_ident)
  then obtain r where u: "u = rev w @ r" by blast
  have d1: "dropWhile is_space (rev w) = rev w"
  proof (cases "rev w")
    case Nil then show ?thesis by simp
  next
    case (Cons c cs)
    then have "u \<noteq> []" and "hd u = c" using u by auto
    then have "\<not> is_space c" using hd_dropWhile[of is_space s] by (simp add: u_def)
    then show ?thesis using Cons by simp
  qed
  have d2: "dropWhile is_space w = w" by (simp add: w_def)
  show ?thesis unfolding v by (simp add: trim_def d1 d2)
qed

lemma csv_lines_not_blank: "l \<in> set (csv_lines csvText) \<Longrightarrow> trim l \<noteq> []"
  by (auto simp: csv_lines_def trim_idem)

lemma csv_data_rows_not_blank: "(i, l) \<in> set (csv_data_rows csvText) \<Longrightarrow> trim l \<noteq> []"
proof -
  assume "(i, l) \<in> set (csv_data_rows csvText)"
  then have "l \<in> set (tl (csv_lines csvText))"
    by (auto simp: csv_data_rows_def in_set_enumerate_eq)
  then have "l \<in> set (csv_lines csvText)" by (metis list.set_sel(2) tl_Nil)
  then show ?thesis by (rule csv_lines_not_blank)
qed

lemma row_error_prefix:
  "prefix (''Row '' @ show_nat (i + 1) @ '': '') (missing_asset_type_error i)"
  "prefix (''Row '' @ show_nat (i + 1) @ '': '') (invalid_percentage_error i raw)"
  by (simp_all add: missing_asset_type_error_def invalid_percentage_error_def)

lemma excel_row_cases:
  assumes "\<not> empty_row row"
  shows "excel_asset_type hm row = [] \<Longrightarrow> excel_row hm i row = RowError (missing_asset_type_error i)"
    and "excel_asset_type hm row \<noteq> [] \<Longrightarrow>
         invalid_percentage (scale_fraction (excel_parsed_percentage hm row)) \<Longrightarrow>
         excel_row hm i row = RowError (invalid_percentage_error i
            (cell_template (at_index row (ExcelHeaderMap.percentage hm))))"
    and "excel_asset_type hm row \<noteq> [] \<Longrightarrow>
         scale_fraction (excel_parsed_percentage hm row) = Finite 0 \<Longrightarrow>
         excel_row hm i row = RowSkipped"
    and "\<not> excel_row_invalid hm row \<Longrightarrow>
         scale_fraction (excel_parsed_percentage hm row) \<noteq> Finite 0 \<Longrightarrow>
         category_check_throws hm row \<Longrightarrow>
         excel_row hm i row = RowThrows ''validCategories.some is not a function''"
    and "\<not> excel_row_invalid hm row \<Longrightarrow>
         scale_fraction (excel_parsed_percentage hm row) \<noteq> Finite 0 \<Longrightarrow>
         \<not> category_check_throws hm row \<Longrightarrow>
         \<exists>t w. excel_row hm i row = RowTarget t w \<and>
           ExcelTargetRow.targetPercentage t =
             finite_value (scale_fraction (excel_parsed_percentage hm row)) \<and>
           ExcelTargetRow.assetType t = normalizeAssetType (excel_asset_type hm row)"
  using assms
  by (auto simp: excel_row_def Let_def excel_asset_type_def excel_parsed_percentage_def
        excel_percentage_def excel_row_invalid_def category_check_throws_def
        invalid_percentage_def split: option.splits)

lemma excel_rows_no_throw:
  assumes "\<forall>r \<in> set rs. \<not> category_check_throws hm r"
  shows "list_all (\<lambda>(k, r). \<forall>msg. excel_row hm k r \<noteq> RowThrows msg) (List.enumerate i rs)"
proof -
  have "excel_row hm k r \<noteq> RowThrows msg" if "\<not> category_check_throws hm r" for k r msg
    using that
    by (auto simp: excel_row_def Let_def category_check_throws_def excel_asset_type_def
          split: option.splits)
  then show ?thesis using assms
    by (auto simp: list_all_iff in_set_enumerate_eq)
qed

lemma parseTargetExcel_result:
  assumes "2 \<le> length data'" and "find_header data' 0 = Some (k, hm)"
    and "\<forall>r \<in> set (drop (k + 1) data'). \<not> category_check_throws hm r"
  shows "parseTargetExcel data' =
     \<lparr>ParsedTargetsResult.targets =
        targets_of (map (\<lambda>(i, r). excel_row hm i r) (excel_data_rows k data')),
      warnings = warnings_of (map (\<lambda>(i, r). excel_row hm i r) (excel_data_rows k data')) @
        total_warning (sum_list (map ExcelTargetRow.targetPercentage
          (targets_of (map (\<lambda>(i, r). excel_row hm i r) (excel_data_rows k data'))))),
      errors = errors_of (map (\<lambda>(i, r). excel_row hm i r) (excel_data_rows k data'))\<rparr>"
  using assms(1,2) excel_rows_outcomes[OF excel_rows_no_throw[OF assms(3)], of "k + 1"]
  by (simp add: parseTargetExcel_def Let_def excel_data_rows_def fold_sum_list)

lemma in_set_enumerateD: "(i, x) \<in> set (List.enumerate n xs) \<Longrightarrow> x \<in> set xs"
  by (metis enumerate_eq_zip set_zip_rightD)



lemma csv_row_classified:
  assumes "trim l \<noteq> []"
  shows "csv_row_invalid hm l \<Longrightarrow>
           \<exists>e. csv_row hm i l = RowError e \<and> prefix (''Row '' @ show_nat (i + 1) @ '': '') e"
    and "\<not> csv_row_invalid hm l \<Longrightarrow> scale_fraction (csv_parsed_percentage hm l) \<noteq> Finite 0 \<Longrightarrow>
           \<exists>t. csv_row hm i l = RowTarget t [] \<and>
             CsvTargetRow.targetPercentage t = finite_value (scale_fraction (csv_parsed_percentage hm l))"
    and "\<not> csv_row_invalid hm l \<Longrightarrow> scale_fraction (csv_parsed_percentage hm l) = Finite 0 \<Longrightarrow>
           csv_row hm i l = RowSkipped"
  unfolding csv_row_cases[OF assms] csv_row_invalid_def
  using row_error_prefix[of i] by auto


lemma excel_row_classified:
  assumes "\<not> empty_row r" and "\<not> category_check_throws hm r"
  shows "excel_row_invalid hm r \<Longrightarrow>
           \<exists>e. excel_row hm i r = RowError e \<and> prefix (''Row '' @ show_nat (i + 1) @ '': '') e"
    and "\<not> excel_row_invalid hm r \<Longrightarrow> scale_fraction (excel_parsed_percentage hm r) \<noteq> Finite 0 \<Longrightarrow>
           \<exists>t w. excel_row hm i r = RowTarget t w \<and>
             ExcelTargetRow.targetPercentage t =
               finite_value (scale_fraction (excel_parsed_percentage hm r))"
    and "\<not> excel_row_invalid hm r \<Longrightarrow> scale_fraction (excel_parsed_percentage hm r) = Finite 0 \<Longrightarrow>
           excel_row hm i r = RowSkipped"
proof -
  note C = excel_row_cases[OF assms(1), of hm i]
  show "excel_row_invalid hm r \<Longrightarrow>
           \<exists>e. excel_row hm i r = RowError e \<and> prefix (''Row '' @ show_nat (i + 1) @ '': '') e"
    using C(1,2) row_error_prefix[of i] unfolding excel_row_invalid_def by metis
  show "\<not> excel_row_invalid hm r \<Longrightarrow> scale_fraction (excel_parsed_percentage hm r) \<noteq> Finite 0 \<Longrightarrow>
           \<exists>t w. excel_row hm i r = RowTarget t w \<and>
             ExcelTargetRow.targetPercentage t =
               finite_value (scale_fraction (excel_parsed_percentage hm r))"
    using C(5) assms(2) by blast
  show "\<not> excel_row_invalid hm r \<Longrightarrow> scale_fraction (excel_parsed_percentage hm r) = Finite 0 \<Longrightarrow>
           excel_row hm i r = RowSkipped"
    using C(3) unfolding excel_row_invalid_def by blast
qed




lemma example_csv_header_found: "csv_header example_csv = Some example_csv_header"
  by code_simp


lemma example_sheet_header_found: "find_header example_sheet 0 = Some (0, example_sheet_header)"
  by code_simp

lemma example_sheet_no_throw:
  "\<forall>r \<in> set (drop (0 + 1) example_sheet). \<not> category_check_throws example_sheet_header r"
  by code_simp


lemma targets_of_member: "RowTarget t w \<in> set os \<Longrightarrow> t \<in> set (targets_of os)"
  by (force simp: targets_of_def)

lemma errors_of_member: "RowError e \<in> set os \<Longrightarrow> e \<in> set (errors_of os)"
  by (force simp: errors_of_def)

lemma finite_percentage_invalid:
  "invalid_percentage (scale_fraction (Finite x)) = (x < 0 \<or> 100 < x)"
proof (cases "0 < x \<and> x < 1")
  case True
  then have "x * 100 \<le> 100" by simp
  then show ?thesis using True by (auto simp: scale_fraction_def invalid_percentage_def)
next
  case False
  then show ?thesis by (auto simp: scale_fraction_def invalid_percentage_def)
qed

lemma example_rows_present:
  "(1, ''Stock,US Stock market,VTI,0.05'') \<in> set (csv_data_rows example_csv)"
  "(1, [CStr ''Shares'', CStr ''US Stock market'', CStr ''VTI'', CNum ''0.05'']) \<in>
     set (excel_data_rows 0 example_sheet)"
  by code_simp+

section \<open>Properties of the statement parser\<close>

lemma skip_fillers_ge: "i \<le> skip_fillers lines i"
proof (induction lines i rule: skip_fillers.induct)
  case (1 lines i)
  show ?case
  proof (cases "i < length lines \<and> filler_line lines i")
    case True
    then have "skip_fillers lines i = skip_fillers lines (i + 1)"
      by (subst skip_fillers.simps) simp
    then show ?thesis using 1[OF True] by simp
  next
    case False
    then have "skip_fillers lines i = i" by (subst skip_fillers.simps) auto
    then show ?thesis by simp
  qed
qed

lemma vertical_row_cursor:
  assumes "vertical_row lines i hs s c = Inl (i', hs')"
  shows "i < i' \<or> (i' = i \<and> hs' = hs)"
proof -
  define n :: nat where "n = (if data_end_index lines i < i + 1 + numDataFields then rowSize - 1 else rowSize)"
  have n: "0 < n" by (simp add: n_def rowSize_def numDataFields_def)
  define vs where "vs = row_values (take (data_end_index lines i - (i + 1)) (drop (i + 1) lines))"
  define q where "q = js_or (vs ! 0) (Finite 0)"
  define p where "p = js_or (vs ! 4) (Finite 0)"
  have R: "vertical_row lines i hs s c =
     (if length vs < 6 then Inl (i + n, hs)
      else if js_le_zero q \<or> js_le_zero p then Inl (i, hs)
      else Inl (i + n, hs @ [\<lparr>ParsedHolding.symbol = s, quantity = q, price = p,
              value = js_or (js_or (vs ! 5) (js_times q p)) (js_times q p),
              currency = c, assetType = None\<rparr>]))"
    unfolding vertical_row_def Let_def n_def vs_def q_def p_def ..
  show ?thesis
  proof (cases "length vs < 6")
    case True
    with assms R have "i' = i + n" by simp
    with n show ?thesis by simp
  next
    case False
    show ?thesis
    proof (cases "js_le_zero q \<or> js_le_zero p")
      case True
      with False assms R have "i' = i \<and> hs' = hs" by simp
      then show ?thesis by simp
    next
      case f: False
      with False assms R have "i' = i + n" by simp
      with n show ?thesis by simp
    qed
  qed
qed

lemma vertical_step_cursor:
  assumes "vertical_step lines (i, hs) = Inl (i', hs')"
  shows "skip_fillers lines i < i' \<or> (i' = skip_fillers lines i \<and> hs' = hs)"
proof -
  define j where "j = skip_fillers lines i"
  define sl where "sl = trim (lines ! j)"
  define cl where "cl = fst (strip_prefix sectionPrefixes sl)"
  define cu where "cu = snd (strip_prefix sectionPrefixes sl)"
  have S: "vertical_step lines (i, hs) =
     (if j \<ge> length lines then Inr hs
      else if not_a_symbol_line sl then Inl (j + 1, hs)
      else if section_name_line sl then Inl (j + 1, hs)
      else if j + rowSize > length lines then Inr hs
      else case extract_symbol cl of
             None \<Rightarrow> Inl (j + 1, hs)
           | Some symbol' \<Rightarrow> vertical_row lines j hs symbol' cu)"
    unfolding vertical_step_def Let_def j_def sl_def cl_def cu_def fst_conv snd_conv ..
  show ?thesis
  proof (cases "j \<ge> length lines")
    case True
    with assms S show ?thesis by simp
  next
    case a: False
    show ?thesis
    proof (cases "not_a_symbol_line sl \<or> section_name_line sl")
      case True
      with a assms S have "i' = j + 1" by (auto split: if_splits)
      then show ?thesis unfolding j_def by simp
    next
      case b: False
      show ?thesis
      proof (cases "j + rowSize > length lines")
        case True
        with a b assms S show ?thesis by simp
      next
        case c: False
        show ?thesis
        proof (cases "extract_symbol cl")
          case None
          with a b c assms S have "i' = j + 1" by simp
          then show ?thesis unfolding j_def by simp
        next
          case (Some sy)
          with a b c assms S have "vertical_row lines j hs sy cu = Inl (i', hs')" by simp
          from vertical_row_cursor[OF this] show ?thesis unfolding j_def .
        qed
      qed
    qed
  qed
qed

lemma example_short_section:
  "open_positions_section example_short_statement = Some example_short_lines"
  by code_simp

lemma vertical_loop_Some_not_stuck:
  "vertical_loop lines st = Some r \<Longrightarrow> vertical_step lines st \<noteq> Inl st"
proof (rule vertical_loop.raw_induct[where P = "\<lambda>lines st r. vertical_step lines st \<noteq> Inl st"])
  fix loop :: "string list \<Rightarrow> nat \<times> ParsedHolding list \<Rightarrow> ParsedHolding list option"
  fix lines st r
  assume IH: "\<And>l s y. loop l s = Some y \<Longrightarrow> vertical_step l s \<noteq> Inl s"
    and body: "(case vertical_step lines st of Inl st' \<Rightarrow> loop lines st'
                | Inr holdings \<Rightarrow> Some holdings) = Some r"
  show "vertical_step lines st \<noteq> Inl st"
  proof
    assume s: "vertical_step lines st = Inl st"
    with body have "loop lines st = Some r" by simp
    from IH[OF this] s show False by simp
  qed
qed

lemma vertical_loop_stuck:
  assumes "vertical_step lines st = Inl st"
  shows "vertical_loop lines st = None"
  using assms vertical_loop_Some_not_stuck[of lines st] by (cases "vertical_loop lines st") auto

lemma example_short_header:
  "find_header_line example_short_lines 0 = Some 1"
  "skip_header (drop 1 example_short_lines) 1 0 = 10"
  "isVerticalFormat example_short_lines 1"
  by code_simp+

lemma example_short_steps:
  "vertical_step example_short_lines (10, []) = Inl (19, [example_iwda])"
  "vertical_step example_short_lines (19, [example_iwda]) = Inl (19, [example_iwda])"
  by code_simp+

subsection \<open>C2\<close>

text \<open>
  Claim C2. An effective symbol \<open>k\<close> of the aggregated allocations that has no ticker-level
  target (neither under \<open>k\<close> nor under the upper-cased symbol of its holding) and no
  category-level target, and whose current allocation is positive, is listed in
  \<^verbatim>\<open>allAssets\<close> with status \<^verbatim>\<open>needs_sell\<close>, whatever the tolerance, and a SELL action
  is emitted for it whose amount is the holding's \<^verbatim>\<open>value_usd\<close> and whose quantity is
  that value divided by the holding's price.
\<close>

theorem unmapped_holding_forced_sell:
  assumes "calculateRebalancing hs ts tv tol sm = Inr plan"
    and "(k, e) \<in> set (ticker_allocations hs tv sm)"
    and "fst (target_maps ts) k = None"
    and "fst (target_maps ts) (toUpperCase (Holding.symbol (holding e))) = None"
    and "snd (target_maps ts) (category_key (Holding.asset_type (holding e))
            (Holding.asset_category (holding e))) = None"
    and "0 < allocation e"
  shows "(\<exists>a \<in> set (allAssets plan).
            AssetStatus.symbol a = Holding.symbol (holding e) \<and>
            AssetStatus.currentAllocation a = allocation e \<and>
            AssetStatus.status a = needs_sell) \<and>
         (\<exists>x \<in> set (actions plan).
            RebalancingAction.symbol x = Holding.symbol (holding e) \<and>
            action x = SELL \<and>
            RebalancingAction.status x = needs_sell \<and>
            amount x = value_usd (holding e) \<and>
            quantity x = js_div (value_usd (holding e)) (price (holding e)))"
proof -
  have r: "resolve_target (target_maps ts) (k, e) = (0, False)"
    using resolve_target_none[OF ticker_allocations_target_symbol[OF assms(2)] assms(3,4,5)] .
  let ?a = "asset_of (target_maps ts) tv tol (k, e)"
  have "?a \<in> set (allAssets plan)"
    using calculateRebalancing_Inr(1)[OF assms(1)] assms(2) by blast
  moreover have "AssetStatus.symbol ?a = Holding.symbol (holding e)"
    "AssetStatus.currentAllocation ?a = allocation e"
    "AssetStatus.status ?a = needs_sell"
    using r assms(6) by (simp_all add: asset_of_def classify_def Let_def)
  ultimately have A: "\<exists>a \<in> set (allAssets plan).
            AssetStatus.symbol a = Holding.symbol (holding e) \<and>
            AssetStatus.currentAllocation a = allocation e \<and>
            AssetStatus.status a = needs_sell" by blast
  let ?x = "\<lparr>RebalancingAction.symbol = Holding.symbol (holding e), action = SELL,
              quantity = js_div (value_usd (holding e)) (price (holding e)),
              amount = value_usd (holding e),
              currentAllocation = allocation e, targetAllocation = 0,
              deviation = allocation e, status = needs_sell\<rparr>"
  have "action_of (target_maps ts) tv tol (k, e) = Some ?x"
    using r assms(6) by (simp add: action_of_def Let_def)
  then have "?x \<in> set (actions plan)"
    using calculateRebalancing_Inr(2)[OF assms(1)] assms(2) by blast
  then have B: "\<exists>x \<in> set (actions plan).
            RebalancingAction.symbol x = Holding.symbol (holding e) \<and>
            action x = SELL \<and>
            RebalancingAction.status x = needs_sell \<and>
            amount x = value_usd (holding e) \<and>
            quantity x = js_div (value_usd (holding e)) (price (holding e))"
    by (intro bexI[of _ ?x]) simp_all
  show ?thesis using A B by blast
qed

theorem unmapped_holding_forced_sell_witness:
  "calculateRebalancing example_holdings example_targets 1000 0.01 example_mappings
     = Inr example_plan \<and>
   (''XYZ'', \<lparr>holding = example_holding ''XYZ'' ''Other'' 5 100, allocation = 10,
              mappedSymbol = None\<rparr>)
     \<in> set (ticker_allocations example_holdings 1000 example_mappings) \<and>
   fst (target_maps example_targets) ''XYZ'' = None \<and>
   snd (target_maps example_targets) (category_key ''Other'' None) = None \<and>
   (\<exists>a \<in> set (allAssets example_plan).
      AssetStatus.symbol a = ''XYZ'' \<and> AssetStatus.currentAllocation a = 10 \<and>
      AssetStatus.status a = needs_sell) \<and>
   (\<exists>x \<in> set (actions example_plan).
      RebalancingAction.symbol x = ''XYZ'' \<and> action x = SELL \<and>
      RebalancingAction.status x = needs_sell \<and> amount x = 100 \<and> quantity x = Some 20)"
proof -
  let ?e = "\<lparr>holding = example_holding ''XYZ'' ''Other'' 5 100, allocation = 10,
            mappedSymbol = None\<rparr>"
  have h4: "fst (target_maps example_targets) (toUpperCase (Holding.symbol (holding ?e))) = None"
    by code_simp
  have h5: "snd (target_maps example_targets) (category_key (Holding.asset_type (holding ?e))
            (Holding.asset_category (holding ?e))) = None"
    by code_simp
  have h6: "0 < allocation ?e" by simp
  note T = unmapped_holding_forced_sell[OF example_plan_computed example_xyz_entry
      example_xyz_no_target(1) h4 h5 h6]
  show ?thesis
    using T example_plan_computed example_xyz_entry example_xyz_no_target
    by (simp add: example_holding_def js_div_def)
qed

subsection \<open>C3\<close>

text \<open>
  Claim C3, as amended. For every input, \<^verbatim>\<open>totalValue\<close> 0 included, the totals of the
  returned plan satisfy: \<^verbatim>\<open>netCashNeeded\<close> is \<^verbatim>\<open>totalBuy - totalSell\<close> and \<^verbatim>\<open>totalBuy\<close>
  is not negative; \<^verbatim>\<open>totalSell\<close> is not negative when no holding other than cash has a
  negative \<^verbatim>\<open>value_usd\<close>. They are the totals of the plan \<open>calculateRebalancing\<close>
  answers whenever it answers one. The forced full-exit SELL adds the first holding's
  \<^verbatim>\<open>value_usd\<close> as it is, so a negative value makes \<^verbatim>\<open>totalSell\<close> negative (the
  counterexample below).
\<close>

theorem rebalancing_conservation:
  "(case calculateRebalancing_totals hs ts tv tol sm of
      (buy, sell, net) \<Rightarrow>
        net = buy - sell \<and> 0 \<le> buy \<and>
        ((\<forall>h \<in> set hs. \<not> is_cash h \<longrightarrow> 0 \<le> value_usd h) \<longrightarrow> 0 \<le> sell) \<and>
        (\<forall>plan. calculateRebalancing hs ts tv tol sm = Inr plan \<longrightarrow>
           totalBuy plan = buy \<and> totalSell plan = sell \<and> netCashNeeded plan = net))"
proof -
  let ?t = "fold (totals_entry (target_maps ts) tv tol) (js_ticker_allocations hs tv sm) (0, 0)"
  have T: "calculateRebalancing_totals hs ts tv tol sm = (fst ?t, snd ?t, fst ?t - snd ?t)"
    by (simp add: calculateRebalancing_totals_def Let_def)
  have b: "0 \<le> fst ?t" by (rule fold_totals_entry_buy) simp
  have s: "0 \<le> snd ?t" if h: "\<forall>h \<in> set hs. \<not> is_cash h \<longrightarrow> 0 \<le> value_usd h"
  proof (rule fold_totals_entry_sell)
    show "\<forall>e\<in>set (js_ticker_allocations hs tv sm). 0 \<le> value_usd (js_holding (snd e))"
      using js_ticker_allocations_holdings h by blast
  qed simp
  have p: "totalBuy plan = fst ?t \<and> totalSell plan = snd ?t \<and>
           netCashNeeded plan = fst ?t - snd ?t"
    if "calculateRebalancing hs ts tv tol sm = Inr plan" for plan
    using calculateRebalancing_totals_plan[OF that] unfolding T by simp
  show ?thesis unfolding T using b s p by simp
qed

theorem rebalancing_conservation_witness:
  "calculateRebalancing example_holdings example_targets 1000 0.01 example_mappings
     = Inr example_plan \<and>
   list_all (\<lambda>h. \<not> is_cash h \<longrightarrow> 0 \<le> value_usd h) example_holdings \<and>
   calculateRebalancing_totals example_holdings example_targets 1000 0.01 example_mappings
     = (80, 100, - 20) \<and>
   totalBuy example_plan = 80 \<and> totalSell example_plan = 100 \<and>
   netCashNeeded example_plan = 80 - 100 \<and>
   list_all (\<lambda>h. \<not> is_cash h \<longrightarrow> 0 \<le> value_usd h)
     [example_holding ''XYZ'' ''Other'' 5 100] \<and>
   calculateRebalancing_totals [example_holding ''XYZ'' ''Other'' 5 100] example_targets 0 0.01
     Map.empty = (0, 100, 0 - 100)"
proof -
  have h: "list_all (\<lambda>h. \<not> is_cash h \<longrightarrow> 0 \<le> value_usd h) example_holdings"
    by (simp add: example_holdings_def example_holding_def)
  have t: "calculateRebalancing_totals example_holdings example_targets 1000 0.01
     example_mappings = (80, 100, - 20)" by code_simp
  have h0: "list_all (\<lambda>h. \<not> is_cash h \<longrightarrow> 0 \<le> value_usd h)
     [example_holding ''XYZ'' ''Other'' 5 100]"
    by (simp add: example_holding_def)
  have b0: "fst (calculateRebalancing_totals [example_holding ''XYZ'' ''Other'' 5 100]
     example_targets 0 0.01 Map.empty) = 0"
    and s0: "fst (snd (calculateRebalancing_totals [example_holding ''XYZ'' ''Other'' 5 100]
     example_targets 0 0.01 Map.empty)) = 100"
    by code_simp+
  have z: "calculateRebalancing_totals [example_holding ''XYZ'' ''Other'' 5 100] example_targets
     0 0.01 Map.empty = (0, 100, 0 - 100)"
    using rebalancing_conservation[of "[example_holding ''XYZ'' ''Other'' 5 100]"
        example_targets 0 "1/100" Map.empty] b0 s0
    by (cases "calculateRebalancing_totals [example_holding ''XYZ'' ''Other'' 5 100]
          example_targets 0 0.01 Map.empty") simp
  show ?thesis
    using rebalancing_conservation[of example_holdings example_targets 1000 "1/100"
        example_mappings] h h0 example_plan_computed t z
    by (simp add: list_all_iff)
qed

theorem negative_value_sell_total_counterexample:
  "map_sum id totalSell
     (calculateRebalancing
        [example_holding ''XYZ'' ''Other'' 10 (- 50), example_holding ''XYZ'' ''Other'' 10 150]
        example_targets 100 0.01 Map.empty) = Inr (- 50)"
  by code_simp

subsection \<open>C4\<close>

text \<open>
  Claim C4, as amended. Holdings whose symbol is CASH in any letter case change nothing
  in the plan computed for a given total value, and no entry of \<^verbatim>\<open>allAssets\<close> carries
  such a symbol; the total value the route passes is the sum over all the holdings, the
  cash holdings included, so cash does enter the denominator of every allocation
  percentage (the counterexample below).
\<close>

theorem cash_holding_never_an_asset:
  "calculateRebalancing hs ts tv tol sm =
     calculateRebalancing (filter (\<lambda>h. \<not> is_cash h) hs) ts tv tol sm \<and>
   (\<forall>plan. calculateRebalancing hs ts tv tol sm = Inr plan \<longrightarrow>
      (\<forall>a \<in> set (allAssets plan). toUpperCase (AssetStatus.symbol a) \<noteq> ''CASH'')) \<and>
   route_total hs =
     route_total (filter (\<lambda>h. \<not> is_cash h) hs) + route_total (filter is_cash hs)"
  using calculateRebalancing_without_cash[of hs ts tv tol sm] assets_not_cash[of hs ts tv tol sm]
    route_total_split[of hs] by blast

theorem cash_holding_never_an_asset_witness:
  "calculateRebalancing example_holdings example_targets 1000 0.01 example_mappings
     = Inr example_plan \<and>
   calculateRebalancing (filter (\<lambda>h. \<not> is_cash h) example_holdings) example_targets 1000 0.01
     example_mappings = Inr example_plan \<and>
   list_all (\<lambda>a. toUpperCase (AssetStatus.symbol a) \<noteq> ''CASH'') (allAssets example_plan) \<and>
   filter is_cash example_holdings = [example_holding ''Cash'' ''Cash'' 400 400] \<and>
   route_total example_holdings = 1000 \<and>
   route_total (filter (\<lambda>h. \<not> is_cash h) example_holdings) = 600"
proof -
  note T = cash_holding_never_an_asset[of example_holdings example_targets 1000 "1/100"
      example_mappings]
  have c: "filter is_cash example_holdings = [example_holding ''Cash'' ''Cash'' 400 400]"
    by code_simp
  have r: "route_total example_holdings = 1000" by code_simp
  have "route_total (filter (\<lambda>h. \<not> is_cash h) example_holdings) = 600"
    using T r unfolding c by (simp add: route_total_def example_holding_def)
  moreover have "list_all (\<lambda>a. toUpperCase (AssetStatus.symbol a) \<noteq> ''CASH'') (allAssets example_plan)"
    using T example_plan_computed by (simp add: list_all_iff)
  ultimately show ?thesis using T example_plan_computed c r by simp
qed

theorem cash_in_route_total_counterexample:
  "map_sum id (map AssetStatus.currentAllocation \<circ> allAssets)
     (rebalancing_route
        [example_holding ''VTI'' ''Stock'' 10 100, example_holding ''CASH'' ''Cash'' 100 100]
        example_targets None Map.empty) = Inr [50] \<and>
   map_sum id (map AssetStatus.currentAllocation \<circ> allAssets)
     (rebalancing_route [example_holding ''VTI'' ''Stock'' 10 100]
        example_targets None Map.empty) = Inr [100]"
  by code_simp

subsection \<open>C5\<close>

lemma tolerance_boundary_inclusive:
  "\<bar>currentPct - targetPct\<bar> \<le> tolerance \<Longrightarrow> classify True targetPct currentPct tolerance = balanced"
  by (simp add: classify_def Let_def)

text \<open>
  Claim C5. The tolerance is compared with the deviation in percentage points as it is:
  with the tolerance 0.01, two positions half a percentage point from their targets are
  classified \<^verbatim>\<open>needs_buy\<close> and \<^verbatim>\<open>needs_sell\<close>, not \<^verbatim>\<open>balanced\<close>. The boundary itself is
  inclusive (\<open>tolerance_boundary_inclusive\<close>).
\<close>

theorem default_tolerance_is_hundredth_of_a_point:
  "map_sum id (map (\<lambda>a. (AssetStatus.symbol a, AssetStatus.deviation a, AssetStatus.status a)) \<circ> allAssets)
     (calculateRebalancing
        [example_holding ''VTI'' ''Stock'' 10 385, example_holding ''BND'' ''Bond'' 10 615]
        [example_target ''VTI'' ''Stock'' 38, example_target ''BND'' ''Bond'' 62]
        1000 0.01 Map.empty)
   = Inr [(''BND'', - (1/2), needs_buy), (''VTI'', 1/2, needs_sell)]"
  by code_simp

subsection \<open>C9\<close>

text \<open>
  Claim C9. When the holdings \<open>h # rest\<close> resolve to the effective symbol \<open>k\<close>, the entry
  of \<open>k\<close> keeps the first holding \<open>h\<close> and sums the allocation percentages of all of
  them. The reported \<^verbatim>\<open>currentAllocation\<close> is that sum, while \<^verbatim>\<open>currentValue\<close>,
  \<^verbatim>\<open>adjustmentNeeded\<close> and the amount and quantity of any action are computed from
  \<^verbatim>\<open>value_usd\<close> and \<^verbatim>\<open>price\<close> of \<open>h\<close> alone.
\<close>

theorem aggregated_symbol_uses_first_holding:
  assumes "calculateRebalancing hs ts tv tol sm = Inr plan"
    and "contributing hs sm k = h # rest"
  shows "\<exists>e. (k, e) \<in> set (ticker_allocations hs tv sm) \<and> holding e = h \<and>
           allocation e = sum_list (map (percent_of tv) (h # rest)) \<and>
           (\<exists>a \<in> set (allAssets plan).
              a = asset_of (target_maps ts) tv tol (k, e) \<and>
              AssetStatus.currentAllocation a = sum_list (map (percent_of tv) (h # rest)) \<and>
              currentValue a = value_usd h \<and>
              adjustmentNeeded a = AssetStatus.targetAllocation a / 100 * tv - value_usd h) \<and>
           (\<forall>x. action_of (target_maps ts) tv tol (k, e) = Some x \<longrightarrow>
              x \<in> set (actions plan) \<and>
              RebalancingAction.currentAllocation x = sum_list (map (percent_of tv) (h # rest)) \<and>
              quantity x = js_div (amount x) (price h) \<and>
              (action x = BUY \<longrightarrow>
                 amount x = RebalancingAction.targetAllocation x / 100 * tv - value_usd h) \<and>
              (action x \<noteq> BUY \<longrightarrow> action x = SELL \<and>
                 (amount x = value_usd h \<or>
                  amount x = \<bar>RebalancingAction.targetAllocation x / 100 * tv - value_usd h\<bar>)))"
proof -
  let ?e = "\<lparr>holding = h, allocation = sum_list (map (percent_of tv) (h # rest)),
             mappedSymbol = or_undefined (sm (toUpperCase (Holding.symbol h)))\<rparr>"
  have mem: "(k, ?e) \<in> set (ticker_allocations hs tv sm)"
    by (rule ticker_allocations_first_holding[OF assms(2)])
  note I = calculateRebalancing_Inr[OF assms(1)]
  let ?a = "asset_of (target_maps ts) tv tol (k, ?e)"
  have a_in: "?a \<in> set (allAssets plan)" unfolding I(1) using mem by blast
  have A: "\<exists>a \<in> set (allAssets plan).
              a = ?a \<and>
              AssetStatus.currentAllocation a = sum_list (map (percent_of tv) (h # rest)) \<and>
              currentValue a = value_usd h \<and>
              adjustmentNeeded a = AssetStatus.targetAllocation a / 100 * tv - value_usd h"
    using a_in by (simp add: asset_of_values del: sum_list.Cons)
  have B: "x \<in> set (actions plan) \<and>
              RebalancingAction.currentAllocation x = sum_list (map (percent_of tv) (h # rest)) \<and>
              quantity x = js_div (amount x) (price h) \<and>
              (action x = BUY \<longrightarrow>
                 amount x = RebalancingAction.targetAllocation x / 100 * tv - value_usd h) \<and>
              (action x \<noteq> BUY \<longrightarrow> action x = SELL \<and>
                 (amount x = value_usd h \<or>
                  amount x = \<bar>RebalancingAction.targetAllocation x / 100 * tv - value_usd h\<bar>))"
    if x: "action_of (target_maps ts) tv tol (k, ?e) = Some x" for x
  proof -
    have "x \<in> set (actions plan)" unfolding I(2) using mem x by blast
    then show ?thesis using action_of_amounts[OF x] by (simp del: sum_list.Cons)
  qed
  show ?thesis
    by (rule exI[of _ ?e]) (use mem A B in \<open>simp del: sum_list.Cons\<close>)
qed

theorem aggregated_symbol_uses_first_holding_witness:
  "calculateRebalancing example_holdings example_targets 1000 0.01 example_mappings
     = Inr example_plan \<and>
   contributing example_holdings example_mappings ''VTI'' =
     [example_holding ''VTI'' ''Stock'' 10 300, example_holding ''vtiq'' ''Stock'' 20 200] \<and>
   (\<exists>e. (''VTI'', e) \<in> set (ticker_allocations example_holdings 1000 example_mappings) \<and>
      holding e = example_holding ''VTI'' ''Stock'' 10 300 \<and> allocation e = 50 \<and>
      (\<exists>a \<in> set (allAssets example_plan).
          AssetStatus.currentAllocation a = 50 \<and> currentValue a = 300 \<and>
          adjustmentNeeded a = 80) \<and>
      (\<exists>x \<in> set (actions example_plan).
          action_of (target_maps example_targets) 1000 0.01 (''VTI'', e) = Some x \<and>
          action x = BUY \<and> amount x = 80 \<and> quantity x = Some 8))"
proof -
  let ?h = "example_holding ''VTI'' ''Stock'' 10 300"
  let ?r = "[example_holding ''vtiq'' ''Stock'' 20 200]"
  let ?e = "\<lparr>holding = ?h, allocation = 50, mappedSymbol = None\<rparr>"
  let ?x = "\<lparr>RebalancingAction.symbol = ''VTI'', action = BUY, quantity = Some 8, amount = 80,
          currentAllocation = 50, targetAllocation = 38, deviation = - 12, status = needs_buy\<rparr>"
  from aggregated_symbol_uses_first_holding[OF example_plan_computed example_contributing]
  obtain e where e: "(''VTI'', e) \<in> set (ticker_allocations example_holdings 1000 example_mappings)"
     "holding e = ?h" "allocation e = sum_list (map (percent_of 1000) (?h # ?r))"
    by blast
  have al: "sum_list (map (percent_of 1000) (?h # ?r)) = 50"
    by (simp add: percent_of_def example_holding_def)
  have ee: "e = ?e"
  proof -
    have "ticker_allocations example_holdings 1000 example_mappings =
       [(''VTI'', ?e), (''XYZ'', \<lparr>holding = example_holding ''XYZ'' ''Other'' 5 100, allocation = 10,
              mappedSymbol = None\<rparr>)]" by code_simp
    then show ?thesis using e(1) by auto
  qed
  have x: "action_of (target_maps example_targets) 1000 0.01 (''VTI'', ?e) = Some ?x"
    by code_simp
  have "?x \<in> set (actions example_plan)" by (simp add: example_plan_def)
  then have X: "\<exists>x \<in> set (actions example_plan).
          action_of (target_maps example_targets) 1000 0.01 (''VTI'', e) = Some x \<and>
          action x = BUY \<and> amount x = 80 \<and> quantity x = Some 8"
    using x ee by (intro bexI[of _ ?x]) simp_all
  have A: "\<exists>a \<in> set (allAssets example_plan).
          AssetStatus.currentAllocation a = 50 \<and> currentValue a = 300 \<and>
          adjustmentNeeded a = 80" by (simp add: example_plan_def)
  show ?thesis
    using example_plan_computed example_contributing e(1,2) al e(3) A X by auto
qed

subsection \<open>C6\<close>

text \<open>
  Claim C6. The matched entries are those of the holdings for which \<open>find_match\<close> finds
  a target, each carrying the match type found. A holding with an exact case-insensitive
  symbol match (primary or alternative ticker) is matched as \<^verbatim>\<open>exact_symbol\<close>, whether
  or not a category-level target matches it too; a match of type \<^verbatim>\<open>exact_isin\<close> occurs
  only when no symbol matches, and one of type \<^verbatim>\<open>category\<close> only when neither a
  symbol nor an ISIN matches.
\<close>

theorem symbol_match_has_priority:
  "matched (matchHoldingsToTargets hs ts) =
     List.map_filter
       (\<lambda>h. map_option (\<lambda>p. matched_holding h (fst p) (snd p))
              (find_match (target_index ts) h)) hs \<and>
   (\<forall>t mt. matchType (matched_holding h t mt) = Some mt) \<and>
   (has_symbol_match ts h \<longrightarrow>
      (\<exists>t. find_match (target_index ts) h = Some (t, exact_symbol))) \<and>
   (\<forall>t. find_match (target_index ts) h = Some (t, exact_isin) \<longrightarrow>
      \<not> has_symbol_match ts h \<and> has_isin_match ts h) \<and>
   (\<forall>t. find_match (target_index ts) h = Some (t, category) \<longrightarrow>
      \<not> has_symbol_match ts h \<and> \<not> has_isin_match ts h \<and> has_category_match ts h)"
proof -
  have 1: "matched (matchHoldingsToTargets hs ts) =
     List.map_filter
       (\<lambda>h. map_option (\<lambda>p. matched_holding h (fst p) (snd p))
              (find_match (target_index ts) h)) hs"
    by (simp add: matchHoldingsToTargets_def fold_match_step_matched)
  have 2: "\<forall>t mt. matchType (matched_holding h t mt) = Some mt"
    by (simp add: matched_holding_def Holding.defs MatchedHolding.defs)
  show ?thesis
    using 1 2 unfolding find_match_cases[of ts h] by (auto split: if_splits)
qed

theorem symbol_match_has_priority_witness:
  "has_symbol_match [example_category_target ''Stock'' 23, example_target ''VTI'' ''Stock'' 38]
     (example_holding ''vti'' ''Stock'' 10 300) \<and>
   has_category_match [example_category_target ''Stock'' 23, example_target ''VTI'' ''Stock'' 38]
     (example_holding ''vti'' ''Stock'' 10 300) \<and>
   find_match (target_index [example_category_target ''Stock'' 23, example_target ''VTI'' ''Stock'' 38])
     (example_holding ''vti'' ''Stock'' 10 300) = Some (example_target ''VTI'' ''Stock'' 38, exact_symbol) \<and>
   map matchType (matched (matchHoldingsToTargets [example_holding ''vti'' ''Stock'' 10 300]
     [example_category_target ''Stock'' 23, example_target ''VTI'' ''Stock'' 38]))
     = [Some exact_symbol]"
proof -
  let ?ts = "[example_category_target ''Stock'' 23, example_target ''VTI'' ''Stock'' 38]"
  let ?h = "example_holding ''vti'' ''Stock'' 10 300"
  note T = symbol_match_has_priority[of "[?h]" ?ts ?h]
  have s: "has_symbol_match ?ts ?h" by code_simp
  have c: "has_category_match ?ts ?h" by code_simp
  from T s obtain t where t: "find_match (target_index ?ts) ?h = Some (t, exact_symbol)"
    by blast
  have "targetsBySymbol (target_index ?ts) (toUpperCase (Holding.symbol ?h))
          = Some (example_target ''VTI'' ''Stock'' 38)" by code_simp
  then have f: "find_match (target_index ?ts) ?h = Some (example_target ''VTI'' ''Stock'' 38, exact_symbol)"
    using t s by (simp add: find_match_cases)
  have "map matchType (matched (matchHoldingsToTargets [?h] ?ts)) = [Some exact_symbol]"
    using T f by (simp add: List.map_filter_simps)
  then show ?thesis using s c f by simp
qed

subsection \<open>C7\<close>

text \<open>
  Claim C7. In both parsers, for a file that gets past the header checks (and, for Excel,
  in which no category check throws), a data row with an asset type whose percentage
  parses to a finite number \<open>x\<close> is validated and stored with \<open>x\<close> scaled by 100 when
  \<open>0 < x < 1\<close> and with \<open>x\<close> itself otherwise: for a fraction the targets returned by
  the parser hold the target of that row with \<open>targetPercentage = 100 x\<close> (0.05 gives
  5); for a value in [1, 100] they hold it with \<open>targetPercentage = x\<close>; 0 is skipped;
  and a value below 0 or above 100 adds the error of that row to the errors returned.
\<close>

theorem fraction_percentage_scaled:
  "(csv_header csvText = Some hm \<and> (i, line) \<in> set (csv_data_rows csvText) \<and>
    csv_asset_type hm line \<noteq> [] \<and> csv_parsed_percentage hm line = Finite x \<longrightarrow>
      (0 < x \<and> x < 1 \<longrightarrow>
         (\<exists>t \<in> set (ParsedCsvTargetsResult.targets (parseTargetCsv csvText)).
            csv_row hm i line = RowTarget t [] \<and> CsvTargetRow.targetPercentage t = x * 100)) \<and>
      (1 \<le> x \<and> x \<le> 100 \<longrightarrow>
         (\<exists>t \<in> set (ParsedCsvTargetsResult.targets (parseTargetCsv csvText)).
            csv_row hm i line = RowTarget t [] \<and> CsvTargetRow.targetPercentage t = x)) \<and>
      (x = 0 \<longrightarrow> csv_row hm i line = RowSkipped) \<and>
      (x < 0 \<or> 100 < x \<longrightarrow>
         (\<exists>e \<in> set (ParsedCsvTargetsResult.errors (parseTargetCsv csvText)).
            csv_row hm i line = RowError e))) \<and>
   (2 \<le> length data' \<and> find_header data' 0 = Some (k, ehm) \<and>
    (\<forall>r \<in> set (drop (k + 1) data'). \<not> category_check_throws ehm r) \<and>
    (j, row) \<in> set (excel_data_rows k data') \<and> \<not> empty_row row \<and>
    excel_asset_type ehm row \<noteq> [] \<and> excel_parsed_percentage ehm row = Finite y \<longrightarrow>
      (0 < y \<and> y < 1 \<longrightarrow>
         (\<exists>t \<in> set (ParsedTargetsResult.targets (parseTargetExcel data')).
            (\<exists>w. excel_row ehm j row = RowTarget t w) \<and>
            ExcelTargetRow.targetPercentage t = y * 100)) \<and>
      (1 \<le> y \<and> y \<le> 100 \<longrightarrow>
         (\<exists>t \<in> set (ParsedTargetsResult.targets (parseTargetExcel data')).
            (\<exists>w. excel_row ehm j row = RowTarget t w) \<and>
            ExcelTargetRow.targetPercentage t = y)) \<and>
      (y = 0 \<longrightarrow> excel_row ehm j row = RowSkipped) \<and>
      (y < 0 \<or> 100 < y \<longrightarrow>
         (\<exists>e \<in> set (ParsedTargetsResult.errors (parseTargetExcel data')).
            excel_row ehm j row = RowError e)))"
proof (intro conjI impI)
  assume a: "csv_header csvText = Some hm \<and> (i, line) \<in> set (csv_data_rows csvText) \<and>
    csv_asset_type hm line \<noteq> [] \<and> csv_parsed_percentage hm line = Finite x"
  then have h: "csv_header csvText = Some hm" and m: "(i, line) \<in> set (csv_data_rows csvText)"
    and ty: "csv_asset_type hm line \<noteq> []"
    and p: "csv_parsed_percentage hm line = Finite x" by simp_all
  have nb: "trim line \<noteq> []" using csv_data_rows_not_blank[OF m] .
  note C = csv_row_classified[OF nb, of hm i]
  note R = parseTargetCsv_result[OF h]
  let ?os = "map (\<lambda>(i, l). csv_row hm i l) (csv_data_rows csvText)"
  have o: "csv_row hm i line \<in> set ?os" using m by force
  have T: "ParsedCsvTargetsResult.targets (parseTargetCsv csvText) = targets_of ?os"
    by (subst R) simp
  have E: "ParsedCsvTargetsResult.errors (parseTargetCsv csvText) = errors_of ?os"
    by (subst R) simp
  have inv: "csv_row_invalid hm line = (x < 0 \<or> 100 < x)"
    using ty p finite_percentage_invalid[of x] by (simp add: csv_row_invalid_def)
  show "\<exists>t \<in> set (ParsedCsvTargetsResult.targets (parseTargetCsv csvText)).
            csv_row hm i line = RowTarget t [] \<and> CsvTargetRow.targetPercentage t = x * 100"
    if "0 < x \<and> x < 1"
  proof -
    from that C(2) inv p obtain t where t: "csv_row hm i line = RowTarget t []"
      "CsvTargetRow.targetPercentage t = x * 100"
      by (auto simp: scale_fraction_def finite_value_def)
    have "t \<in> set (targets_of ?os)" using o unfolding t(1) by (rule targets_of_member)
    with t T show ?thesis by auto
  qed
  show "\<exists>t \<in> set (ParsedCsvTargetsResult.targets (parseTargetCsv csvText)).
            csv_row hm i line = RowTarget t [] \<and> CsvTargetRow.targetPercentage t = x"
    if "1 \<le> x \<and> x \<le> 100"
  proof -
    from that C(2) inv p obtain t where t: "csv_row hm i line = RowTarget t []"
      "CsvTargetRow.targetPercentage t = x"
      by (auto simp: scale_fraction_def finite_value_def)
    have "t \<in> set (targets_of ?os)" using o unfolding t(1) by (rule targets_of_member)
    with t T show ?thesis by auto
  qed
  show "csv_row hm i line = RowSkipped" if "x = 0"
    using that C(3) inv p by (simp add: scale_fraction_def)
  show "\<exists>e \<in> set (ParsedCsvTargetsResult.errors (parseTargetCsv csvText)).
            csv_row hm i line = RowError e" if "x < 0 \<or> 100 < x"
  proof -
    from that C(1) inv obtain e where e: "csv_row hm i line = RowError e" by blast
    have "e \<in> set (errors_of ?os)" using o unfolding e by (rule errors_of_member)
    with e E show ?thesis by auto
  qed
next
  assume a: "2 \<le> length data' \<and> find_header data' 0 = Some (k, ehm) \<and>
    (\<forall>r \<in> set (drop (k + 1) data'). \<not> category_check_throws ehm r) \<and>
    (j, row) \<in> set (excel_data_rows k data') \<and> \<not> empty_row row \<and>
    excel_asset_type ehm row \<noteq> [] \<and> excel_parsed_percentage ehm row = Finite y"
  then have l: "2 \<le> length data'" and h: "find_header data' 0 = Some (k, ehm)"
    and nts: "\<forall>r \<in> set (drop (k + 1) data'). \<not> category_check_throws ehm r"
    and m: "(j, row) \<in> set (excel_data_rows k data')"
    and ne: "\<not> empty_row row" and ty: "excel_asset_type ehm row \<noteq> []"
    and p: "excel_parsed_percentage ehm row = Finite y" by simp_all
  have nt: "\<not> category_check_throws ehm row"
    using m nts in_set_enumerateD unfolding excel_data_rows_def by fast
  note C = excel_row_classified[OF ne nt, of j]
  note R = parseTargetExcel_result[OF l h nts]
  let ?os = "map (\<lambda>(i, r). excel_row ehm i r) (excel_data_rows k data')"
  have o: "excel_row ehm j row \<in> set ?os" using m by force
  have T: "ParsedTargetsResult.targets (parseTargetExcel data') = targets_of ?os"
    by (subst R) simp
  have E: "ParsedTargetsResult.errors (parseTargetExcel data') = errors_of ?os"
    by (subst R) simp
  have inv: "excel_row_invalid ehm row = (y < 0 \<or> 100 < y)"
    using ty p finite_percentage_invalid[of y] by (simp add: excel_row_invalid_def)
  show "\<exists>t \<in> set (ParsedTargetsResult.targets (parseTargetExcel data')).
            (\<exists>w. excel_row ehm j row = RowTarget t w) \<and>
            ExcelTargetRow.targetPercentage t = y * 100"
    if "0 < y \<and> y < 1"
  proof -
    from that C(2) inv p obtain t w where t: "excel_row ehm j row = RowTarget t w"
      "ExcelTargetRow.targetPercentage t = y * 100"
      by (auto simp: scale_fraction_def finite_value_def)
    have "t \<in> set (targets_of ?os)" using o unfolding t(1) by (rule targets_of_member)
    with t T show ?thesis by auto
  qed
  show "\<exists>t \<in> set (ParsedTargetsResult.targets (parseTargetExcel data')).
            (\<exists>w. excel_row ehm j row = RowTarget t w) \<and>
            ExcelTargetRow.targetPercentage t = y"
    if "1 \<le> y \<and> y \<le> 100"
  proof -
    from that C(2) inv p obtain t w where t: "excel_row ehm j row = RowTarget t w"
      "ExcelTargetRow.targetPercentage t = y"
      by (auto simp: scale_fraction_def finite_value_def)
    have "t \<in> set (targets_of ?os)" using o unfolding t(1) by (rule targets_of_member)
    with t T show ?thesis by auto
  qed
  show "excel_row ehm j row = RowSkipped" if "y = 0"
    using that C(3) inv p by (simp add: scale_fraction_def)
  show "\<exists>e \<in> set (ParsedTargetsResult.errors (parseTargetExcel data')).
            excel_row ehm j row = RowError e" if "y < 0 \<or> 100 < y"
  proof -
    from that C(1) inv obtain e where e: "excel_row ehm j row = RowError e" by blast
    have "e \<in> set (errors_of ?os)" using o unfolding e by (rule errors_of_member)
    with e E show ?thesis by auto
  qed
qed

theorem fraction_percentage_scaled_witness:
  "csv_header example_csv = Some example_csv_header \<and>
   (1, ''Stock,US Stock market,VTI,0.05'') \<in> set (csv_data_rows example_csv) \<and>
   csv_parsed_percentage example_csv_header ''Stock,US Stock market,VTI,0.05'' = Finite (5 / 100) \<and>
   (\<exists>t \<in> set (ParsedCsvTargetsResult.targets (parseTargetCsv example_csv)).
      csv_row example_csv_header 1 ''Stock,US Stock market,VTI,0.05'' = RowTarget t [] \<and>
      CsvTargetRow.targetPercentage t = 5) \<and>
   find_header example_sheet 0 = Some (0, example_sheet_header) \<and>
   (1, [CStr ''Shares'', CStr ''US Stock market'', CStr ''VTI'', CNum ''0.05'']) \<in>
     set (excel_data_rows 0 example_sheet) \<and>
   excel_parsed_percentage example_sheet_header
     [CStr ''Shares'', CStr ''US Stock market'', CStr ''VTI'', CNum ''0.05''] = Finite (5 / 100) \<and>
   (\<exists>t \<in> set (ParsedTargetsResult.targets (parseTargetExcel example_sheet)).
      (\<exists>w. excel_row example_sheet_header 1
        [CStr ''Shares'', CStr ''US Stock market'', CStr ''VTI'', CNum ''0.05''] = RowTarget t w) \<and>
      ExcelTargetRow.targetPercentage t = 5)"
proof -
  let ?l = "''Stock,US Stock market,VTI,0.05''"
  let ?r = "[CStr ''Shares'', CStr ''US Stock market'', CStr ''VTI'', CNum ''0.05'']"
  have c: "csv_asset_type example_csv_header ?l \<noteq> []"
    "csv_parsed_percentage example_csv_header ?l = Finite (5 / 100)"
    by code_simp+
  have e: "\<not> empty_row ?r" "excel_asset_type example_sheet_header ?r \<noteq> []"
    "excel_parsed_percentage example_sheet_header ?r = Finite (5 / 100)"
    by code_simp+
  have l: "2 \<le> length example_sheet" by (simp add: example_sheet_def)
  show ?thesis
    using fraction_percentage_scaled[of example_csv example_csv_header 1 ?l "5 / 100"
        example_sheet 0 example_sheet_header 1 ?r "5 / 100"]
      c e l example_csv_header_found example_sheet_header_found example_sheet_no_throw
      example_rows_present
    by simp
qed

subsection \<open>C8\<close>




lemma excel_category_lookup_discards_all_rows:
  "parseTargetExcel
     [[CStr ''Asset Type'', CStr ''Asset Category'', CStr ''%''],
      [CStr ''Stock'', CStr ''EU'', CNum ''95''],
      [CStr ''constructor'', CStr ''EU'', CNum ''5'']]
   = \<lparr>ParsedTargetsResult.targets = [], warnings = [],
      errors = [''Failed to read Excel file: validCategories.some is not a function'']\<rparr>"
  by code_simp

subsection \<open>C10\<close>




subsection \<open>C1\<close>

text \<open>
  Claim C1. The claim says that the cursor of the vertical loop advances after every
  row, accepted or skipped, so that parsing returns on every input. It does after a row
  with fewer than six numbers and after an accepted row (by 8 or 9 lines). But a row
  with at least six numbers whose quantity or close price is not positive is skipped by
  a \<^verbatim>\<open>continue\<close> that leaves the cursor where it is: a turn of the loop either moves
  the cursor forward or leaves the cursor and the holdings as they are (lemma
  \<open>vertical_step_cursor\<close>), and in the second case the loop never ends (lemma
  \<open>vertical_loop_stuck\<close>). The statement below holds a long position followed by a short
  one (quantity -10): \<open>parseOpenPositions\<close> does not return on it.
\<close>

theorem short_position_never_returns:
  "parseOpenPositions example_short_statement = None"
proof -
  have stuck: "vertical_loop example_short_lines (19, [example_iwda]) = None"
    by (rule vertical_loop_stuck[OF example_short_steps(2)])
  have "vertical_loop example_short_lines (10, []) =
        vertical_loop example_short_lines (19, [example_iwda])"
    by (subst vertical_loop.simps) (simp only: example_short_steps(1) sum.case)
  with stuck have loop: "vertical_loop example_short_lines (10, []) = None" by simp
  show ?thesis
    unfolding parseOpenPositions_def
    by (simp only: example_short_section example_short_header option.case Let_def if_True loop)
qed

end
